theory Spec2Isabelle
  imports Main
begin

section \<open>Compiler extensions: values, descriptors, diagnostics\<close>

text \<open>
  The extension loader of \<^verbatim>\<open>src/compiler/extensions.ts\<close> inspects values that a
  host loaded dynamically, so the model starts with the JavaScript values the code
  can meet. An object or a function carries its enumerable data properties in
  enumeration order (accessor properties are outside the model); a function also
  carries its source text. \<open>Err n m s\<close> is an error object with the name \<open>n\<close>
  (\<^verbatim>\<open>Error\<close> for \<^verbatim>\<open>new Error(m)\<close>), the message \<open>m\<close> and the inherited
  \<^verbatim>\<open>Error.prototype.toString\<close>, whose \<^verbatim>\<open>stack\<close> property holds \<open>s\<close>
  (\<open>Undefined\<close> on an engine without stack traces). \<open>Num n\<close> is the number with
  the integer value \<open>n\<close>.
\<close>

datatype jsval =
    Undefined
  | Null
  | Bool bool
  | Num int
  | Str string
  | Obj "(string \<times> jsval) list"
  | Fun string "(string \<times> jsval) list"
  | Err string string jsval

text \<open>
  What is thrown: a \<^verbatim>\<open>TypeError\<close> of the engine, a failed \<^verbatim>\<open>Debug.assert\<close>, or
  a value thrown by code that the engine runs for a conversion.
\<close>

datatype error = TypeError | AssertionFailure string | Thrown jsval

section \<open>JavaScript conversions\<close>

text \<open>Truthiness, as tested by \<^verbatim>\<open>if (v)\<close> and \<^verbatim>\<open>!v\<close>.\<close>

fun truthy :: "jsval \<Rightarrow> bool" where
  "truthy Undefined = False"
| "truthy Null = False"
| "truthy (Bool b) = b"
| "truthy (Num n) = (n \<noteq> 0)"
| "truthy (Str s) = (s \<noteq> [])"
| "truthy (Obj ps) = True"
| "truthy (Fun src ps) = True"
| "truthy (Err n m s) = True"

fun typeof :: "jsval \<Rightarrow> string" where
  "typeof Undefined = ''undefined''"
| "typeof Null = ''object''"
| "typeof (Bool b) = ''boolean''"
| "typeof (Num n) = ''number''"
| "typeof (Str s) = ''string''"
| "typeof (Obj ps) = ''object''"
| "typeof (Fun src ps) = ''function''"
| "typeof (Err n m s) = ''object''"

text \<open>
  The property read \<^verbatim>\<open>v[k]\<close> for the keys that the loader reads:
  \<^verbatim>\<open>extension-kind\<close> of an export, \<^verbatim>\<open>stack\<close> of a caught value, and a kind tag in
  the \<^verbatim>\<open>ExtensionKind\<close> namespace object. None of these names a property that
  objects, functions or primitives inherit, so the read is that of the value's own
  properties. The code reads a property only of a value it has just found truthy, or
  of the namespace object: the read of a property of \<^verbatim>\<open>undefined\<close> or \<^verbatim>\<open>null\<close>,
  which would throw, does not occur through this function.
\<close>

fun js_get :: "jsval \<Rightarrow> string \<Rightarrow> jsval" where
  "js_get (Obj ps) k = (case map_of ps k of None \<Rightarrow> Undefined | Some v \<Rightarrow> v)"
| "js_get (Fun src ps) k = (case map_of ps k of None \<Rightarrow> Undefined | Some v \<Rightarrow> v)"
| "js_get (Err n m s) k =
     (if k = ''name'' then Str n else if k = ''message'' then Str m
      else if k = ''stack'' then s else Undefined)"
| "js_get v k = Undefined"

text \<open>Decimal digits of a natural number, for string conversion and index keys.\<close>

function natToString :: "nat \<Rightarrow> string" where
  "natToString n =
     (if n < 10 then [char_of (48 + n)]
      else natToString (n div 10) @ [char_of (48 + n mod 10)])"
  by pat_completeness auto
termination
  by (relation "measure id") auto

text \<open>
  The string conversion of a template literal (\<^verbatim>\<open>`${v}`\<close>). The language fixes
  it for \<^verbatim>\<open>undefined\<close>, \<^verbatim>\<open>null\<close>, booleans, strings, and the integers that a
  number holds exactly (up to \<open>2^53\<close> in magnitude), which print as their decimal
  digits; an error object with the inherited \<^verbatim>\<open>toString\<close> prints its name and
  message. For every other value the conversion is the engine's, given as \<open>conv\<close>: a
  larger number prints in a shortened or exponent form, and for an object or a
  function the engine runs the value's \<^verbatim>\<open>toString\<close> and \<^verbatim>\<open>valueOf\<close>, which may
  throw (a \<^verbatim>\<open>TypeError\<close> when neither gives a primitive).
\<close>

fun js_toString :: "(jsval \<Rightarrow> error + string) \<Rightarrow> jsval \<Rightarrow> error + string" where
  "js_toString conv Undefined = Inr ''undefined''"
| "js_toString conv Null = Inr ''null''"
| "js_toString conv (Bool b) = Inr (if b then ''true'' else ''false'')"
| "js_toString conv (Num n) =
     (if \<bar>n\<bar> \<le> 9007199254740992
      then Inr (if n < 0 then ''-'' @ natToString (nat (- n)) else natToString (nat n))
      else conv (Num n))"
| "js_toString conv (Str s) = Inr s"
| "js_toString conv (Err n m s) =
     Inr (if n = [] then m else if m = [] then n else n @ '': '' @ m)"
| "js_toString conv (Obj ps) = conv (Obj ps)"
| "js_toString conv (Fun src ps) = conv (Fun src ps)"

text \<open>
  The own enumerable properties that \<^verbatim>\<open>for (const key in v)\<close> visits, in order. A
  string has its characters under their indices; the message and the stack of an
  error are not enumerable.
\<close>

fun js_props :: "jsval \<Rightarrow> (string \<times> jsval) list" where
  "js_props (Obj ps) = ps"
| "js_props (Fun src ps) = ps"
| "js_props (Str s) = map (\<lambda>i. (natToString i, Str [s ! i])) [0..<length s]"
| "js_props v = []"

text \<open>\<^verbatim>\<open>array.push(x)\<close> on a variable that may hold \<^verbatim>\<open>undefined\<close>.\<close>

definition array_push :: "'a list option \<Rightarrow> 'a \<Rightarrow> error + 'a list option" where
  "array_push array x = (case array of None \<Rightarrow> Inl TypeError | Some xs \<Rightarrow> Inr (Some (xs @ [x])))"

text \<open>
  A plain object (\<^verbatim>\<open>{}\<close>, or a parsed configuration object) inherits the properties
  of \<^verbatim>\<open>Object.prototype\<close>: the functions named here (the last four are the legacy
  accessor helpers that the engines running the compiler provide) and the accessor
  \<^verbatim>\<open>__proto__\<close>, which reads and writes the object's prototype. \<open>inheritedProperty k\<close>
  is what the read of \<open>k\<close> gives on an object with prototype \<^verbatim>\<open>Object.prototype\<close>
  and no own property \<open>k\<close>.
\<close>

definition objectPrototypeNames :: "string list" where
  "objectPrototypeNames =
     [''constructor'', ''toString'', ''toLocaleString'', ''valueOf'', ''hasOwnProperty'',
      ''isPrototypeOf'', ''propertyIsEnumerable'', ''__defineGetter__'', ''__defineSetter__'',
      ''__lookupGetter__'', ''__lookupSetter__'']"

definition inheritedProperty :: "string \<Rightarrow> jsval" where
  "inheritedProperty k =
     (if k \<in> set objectPrototypeNames then Fun ''function () { [native code] }'' []
      else if k = ''__proto__'' then Obj []
      else Undefined)"

section \<open>Descriptors and profile records\<close>

text \<open>
  \<^verbatim>\<open>ProfileData\<close>; the field \<^verbatim>\<open>length\<close> is written \<open>length'\<close>. Timestamps
  (\<^verbatim>\<open>+(new Date())\<close>) are milliseconds, an integer.
\<close>

record ProfileData =
  task :: string
  start :: int
  length' :: int

text \<open>
  The dictionary \<^verbatim>\<open>ext.profiles\<close> is a plain object, made by \<^verbatim>\<open>{}\<close>. \<open>own\<close> holds
  its own properties, the records written under task names. An assignment to the key
  \<^verbatim>\<open>__proto__\<close> goes to the inherited accessor and makes the assigned record the
  prototype of the dictionary: \<open>proto\<close> is that record, when there is one, and
  \<^verbatim>\<open>Object.prototype\<close> lies behind it.
\<close>

record ProfileMap =
  own :: "string \<rightharpoonup> ProfileData"
  proto :: "ProfileData option"

text \<open>
  \<^verbatim>\<open>ExtensionBase\<close> with the two fields that \<^verbatim>\<open>collectCompilerExtensions\<close> adds
  to it: \<^verbatim>\<open>ctor\<close> for the lint kinds and \<^verbatim>\<open>__extension\<close> for any other kind.
  An optional property is an \<open>option\<close>.
\<close>

record Extension =
  name :: string
  args :: jsval
  kind :: string
  ctor :: "jsval option"
  extension' :: "jsval option"
  profiles :: "ProfileMap option"

section \<open>The profiling recorder\<close>

text \<open>
  What the read \<^verbatim>\<open>ext.profiles[task]\<close> gives: a record of the dictionary (its own,
  or its prototype under \<^verbatim>\<open>__proto__\<close>), or a value it inherits: a field of the
  record that is its prototype, or a property of \<^verbatim>\<open>Object.prototype\<close>.
\<close>

datatype profileSlot = Record ProfileData | Inherited jsval

definition profiles_get :: "ProfileMap \<Rightarrow> string \<Rightarrow> profileSlot" where
  "profiles_get m t =
     (case own m t of
        Some r \<Rightarrow> Record r
      | None \<Rightarrow>
          (case proto m of
             Some r \<Rightarrow>
               (if t = ''__proto__'' then Record r
                else if t = ''task'' then Inherited (Str (task r))
                else if t = ''start'' then Inherited (Num (start r))
                else if t = ''length'' then Inherited (Num (length' r))
                else Inherited (inheritedProperty t))
           | None \<Rightarrow> Inherited (inheritedProperty t)))"

fun slotTruthy :: "profileSlot \<Rightarrow> bool" where
  "slotTruthy (Record r) = True"
| "slotTruthy (Inherited v) = truthy v"

text \<open>
  The assignment \<^verbatim>\<open>ext.profiles[task] = record\<close>: an own property, except under
  \<^verbatim>\<open>__proto__\<close>, where (unless the dictionary has an own property of that name) the
  record becomes the prototype.
\<close>

definition profiles_set :: "ProfileMap \<Rightarrow> string \<Rightarrow> ProfileData \<Rightarrow> ProfileMap" where
  "profiles_set m t r =
     (if t = ''__proto__'' \<and> own m t = None then m\<lparr>proto := Some r\<rparr>
      else m\<lparr>own := (own m)(t \<mapsto> r)\<rparr>)"

text \<open>
  The assignment \<^verbatim>\<open>ext.profiles[task].length = endTime - ext.profiles[task].start\<close>.
  On a record it writes the difference. On an inherited value it writes to a string,
  a number or a function, which leaves these as they are (the file is a script with
  no strict-mode directive, so the write is ignored and does not throw), or to
  \<^verbatim>\<open>Object.prototype\<close>, which is not part of the descriptor: the dictionary stays
  as it is.
\<close>

definition profiles_setLength :: "ProfileMap \<Rightarrow> string \<Rightarrow> int \<Rightarrow> ProfileMap" where
  "profiles_setLength m t endTime =
     (case own m t of
        Some r \<Rightarrow> m\<lparr>own := (own m)(t \<mapsto> r\<lparr>length' := endTime - start r\<rparr>)\<rparr>
      | None \<Rightarrow>
          (case proto m of
             Some r \<Rightarrow>
               (if t = ''__proto__'' then m\<lparr>proto := Some (r\<lparr>length' := endTime - start r\<rparr>)\<rparr>
                else m)
           | None \<Rightarrow> m))"

text \<open>
  Modelled from the spec: \<^verbatim>\<open>Debug.assert\<close> is not in the source file; a failed
  assertion is fatal and halts the calling operation. Here it is the \<open>Inl\<close> of the
  result, carrying the assertion's message.
\<close>

definition Debug_assert :: "bool \<Rightarrow> string \<Rightarrow> error + unit" where
  "Debug_assert expression msg = (if expression then Inr () else Inl (AssertionFailure msg))"

text \<open>The current time is an argument: \<open>now\<close> is what \<^verbatim>\<open>+(new Date())\<close> returns.\<close>

definition startExtensionProfile :: "Extension \<Rightarrow> string \<Rightarrow> int \<Rightarrow> Extension" where
  "startExtensionProfile ext t now =
     (let ps = (case profiles ext of None \<Rightarrow> \<lparr>own = Map.empty, proto = None\<rparr> | Some m \<Rightarrow> m)
      in ext\<lparr>profiles := Some (profiles_set ps t \<lparr>task = t, start = now, length' = - 1\<rparr>)\<rparr>)"

definition completeExtensionProfile :: "Extension \<Rightarrow> string \<Rightarrow> int \<Rightarrow> error + Extension" where
  "completeExtensionProfile ext t endTime =
     (case Debug_assert (profiles ext \<noteq> None)
             ''Completed profile, but extension has no started profiles.'' of
        Inl e \<Rightarrow> Inl e
      | Inr _ \<Rightarrow>
         (let m = the (profiles ext) in
          case Debug_assert (slotTruthy (profiles_get m t))
                 ''Completed profile did not have a corresponding start.'' of
            Inl e \<Rightarrow> Inl e
          | Inr _ \<Rightarrow> Inr (ext\<lparr>profiles := Some (profiles_setLength m t endTime)\<rparr>)))"



text \<open>The record of a task on a descriptor, when there is one.\<close>

definition profileOf :: "Extension \<Rightarrow> string \<Rightarrow> ProfileData option" where
  "profileOf ext t =
     (case profiles ext of
        None \<Rightarrow> None
      | Some m \<Rightarrow> (case profiles_get m t of Record r \<Rightarrow> Some r | Inherited v \<Rightarrow> None))"


section \<open>Diagnostics, options, host\<close>

datatype DiagnosticMessage =
    Extension_loading_failed_with_error_0
  | Extension_0_exported_member_1_has_extension_kind_2_but_was_type_3_when_type_4_was_expected

text \<open>
  Modelled from the spec: \<^verbatim>\<open>createCompilerDiagnostic\<close> and the message catalogue
  are not in the source file. A diagnostic is the catalogue message (which fixes the
  category) and the positional arguments it was created with; rendering them into
  the message text is not part of the source file either.
\<close>

record Diagnostic =
  message :: DiagnosticMessage
  messageArgs :: "jsval list"

definition createCompilerDiagnostic :: "DiagnosticMessage \<Rightarrow> jsval list \<Rightarrow> Diagnostic" where
  "createCompilerDiagnostic msg as = \<lparr>message = msg, messageArgs = as\<rparr>"

text \<open>
  \<^verbatim>\<open>options.extensions\<close>: not set, an array of names, or an object from names to
  arguments (its keys in enumeration order).
\<close>

datatype ExtOptions = Unset | Names "string list" | Mapping "(string \<times> jsval) list"

text \<open>
  Modelled from the spec: \<^verbatim>\<open>getKeys\<close> is not in the source file; it gives the names
  of a mapping in enumeration order. There are none when the option is not set, and
  the keys of an array, which the code does not ask for, are its indices.
\<close>

fun getKeys :: "ExtOptions \<Rightarrow> string list" where
  "getKeys (Mapping m) = map fst m"
| "getKeys (Names ns) = map natToString [0..<length ns]"
| "getKeys Unset = []"

text \<open>
  The host. \<^verbatim>\<open>getCurrentDirectory\<close> and \<^verbatim>\<open>loadExtension\<close> are optional methods;
  a load returns a value (\<open>Inr\<close>) or throws one (\<open>Inl\<close>). \<^verbatim>\<open>resolveModuleName\<close>,
  which is not in the source file, is taken from the host: the name and the
  containing file give the resolved file name, or nothing. Two fields stand for the
  engine that runs the host: \<open>newErrorStack\<close> is the stack trace that it gives to
  \<^verbatim>\<open>new Error(msg)\<close>, when it gives one, and \<open>valueToString\<close> is its string conversion
  of the values for which \<open>js_toString\<close> asks it.
\<close>

record ExtensionHost =
  getCurrentDirectory :: "string option"
  resolveModuleName :: "string \<Rightarrow> string \<Rightarrow> string option"
  loadExtension :: "(string \<Rightarrow> jsval + jsval) option"
  newErrorStack :: "string \<Rightarrow> string option"
  valueToString :: "jsval \<Rightarrow> error + string"

definition newError :: "ExtensionHost \<Rightarrow> string \<Rightarrow> jsval" where
  "newError host msg =
     Err ''Error'' msg (case newErrorStack host msg of None \<Rightarrow> Undefined | Some s \<Rightarrow> Str s)"

text \<open>
  Modelled from the spec: \<^verbatim>\<open>combinePaths\<close> is not in the source file; the
  configuration file is located in the current directory, and is the bare file name
  when the directory is empty.
\<close>

definition combinePaths :: "string \<Rightarrow> string \<Rightarrow> string" where
  "combinePaths path1 path2 =
     (if path1 = [] then path2
      else if last path1 = CHR ''/'' then path1 @ path2
      else path1 @ ''/'' @ path2)"

section \<open>The extension cache\<close>

text \<open>
  The state that \<^verbatim>\<open>createExtensionCache\<close> closes over: the memoized grouping, the
  diagnostics, and (for the claims about the loader) the file names that
  \<^verbatim>\<open>host.loadExtension\<close> has been called with so far.
\<close>

type_synonym ExtensionCollectionMap = "string \<rightharpoonup> Extension list"

record CacheState =
  extensions :: "ExtensionCollectionMap option"
  diagnostics :: "Diagnostic list"
  loadCalls :: "string list"

definition createExtensionCache :: CacheState where
  "createExtensionCache = \<lparr>extensions = None, diagnostics = [], loadCalls = []\<rparr>"

record ExtensionLoadResult =
  res_name :: string
  res_result :: jsval
  res_error :: jsval

definition quote :: string where
  "quote = [CHR 0x27]"

text \<open>
  The text of \<^verbatim>\<open>`${error}\n  Stack trace:\n  ${error.stack}`\<close>: the template
  spans three source lines, each continuation indented by twenty spaces. It converts
  the caught value and then its stack to strings; a conversion that throws ends it.
\<close>

definition errorWithStack :: "(jsval \<Rightarrow> error + string) \<Rightarrow> jsval \<Rightarrow> error + string" where
  "errorWithStack conv e =
     (case js_toString conv e of
        Inl x \<Rightarrow> Inl x
      | Inr s1 \<Rightarrow>
          (case js_toString conv (js_get e ''stack'') of
             Inl x \<Rightarrow> Inl x
           | Inr s2 \<Rightarrow>
               Inr (s1 @ [CHR 0x0A] @ replicate 20 CHR '' '' @ ''Stack trace:''
                      @ [CHR 0x0A] @ replicate 20 CHR '' '' @ s2)))"

text \<open>
  The body of the first \<^verbatim>\<open>map\<close>: resolve one name, load it, and turn a failure
  into a diagnostic. The \<^verbatim>\<open>try\<close> encloses the load alone: the template literal of
  the diagnostic is outside it, and what its conversions throw leaves the function.
  The two timestamps are read and never used.
\<close>

definition extensionLoadResult ::
  "ExtensionHost \<Rightarrow> string \<Rightarrow> string \<Rightarrow> CacheState
     \<Rightarrow> (error + ExtensionLoadResult) \<times> CacheState" where
  "extensionLoadResult host currentDirectory nm st =
     (let (result, err, st1) =
        (case loadExtension host of
           Some load \<Rightarrow>
             (case resolveModuleName host nm (combinePaths currentDirectory ''tsconfig.json'') of
                Some resolved \<Rightarrow>
                  (case load resolved of
                     Inr v \<Rightarrow> (v, Undefined, st\<lparr>loadCalls := loadCalls st @ [resolved]\<rparr>)
                   | Inl e \<Rightarrow> (Undefined, e, st\<lparr>loadCalls := loadCalls st @ [resolved]\<rparr>))
              | None \<Rightarrow>
                  (Undefined,
                   newError host (''Host could not locate extension '' @ quote @ nm @ quote @ ''.''),
                   st))
         | None \<Rightarrow> (Undefined, newError host ''Extension loading not implemented in host!'', st));
          res = \<lparr>res_name = nm, res_result = result, res_error = err\<rparr>
      in if truthy err
         then
           if truthy (js_get err ''stack'')
           then
             (case errorWithStack (valueToString host) err of
                Inl x \<Rightarrow> (Inl x, st1)
              | Inr text \<Rightarrow>
                  (Inr res,
                   st1\<lparr>diagnostics := diagnostics st1 @
                     [createCompilerDiagnostic Extension_loading_failed_with_error_0 [Str text]]\<rparr>))
           else
             (Inr res,
              st1\<lparr>diagnostics := diagnostics st1 @
                [createCompilerDiagnostic Extension_loading_failed_with_error_0 [err]]\<rparr>)
         else (Inr res, st1))"

fun extensionLoadResults ::
  "ExtensionHost \<Rightarrow> string \<Rightarrow> string list \<Rightarrow> CacheState
     \<Rightarrow> (error + ExtensionLoadResult list) \<times> CacheState" where
  "extensionLoadResults host currentDirectory [] st = (Inr [], st)"
| "extensionLoadResults host currentDirectory (nm # nms) st =
     (case extensionLoadResult host currentDirectory nm st of
        (Inl e, st1) \<Rightarrow> (Inl e, st1)
      | (Inr res, st1) \<Rightarrow>
          (case extensionLoadResults host currentDirectory nms st1 of
             (Inl e, st2) \<Rightarrow> (Inl e, st2)
           | (Inr ress, st2) \<Rightarrow> (Inr (res # ress), st2)))"

text \<open>The namespace object \<^verbatim>\<open>ts.ExtensionKind\<close> and its two constants.\<close>

definition SemanticLint :: string where
  "SemanticLint = ''semantic-lint''"

definition SyntacticLint :: string where
  "SyntacticLint = ''syntactic-lint''"

definition ExtensionKind :: jsval where
  "ExtensionKind = Obj [(''SemanticLint'', Str SemanticLint), (''SyntacticLint'', Str SyntacticLint)]"

text \<open>
  \<^verbatim>\<open>extensionNames === extOptions ? undefined : extOptions[res.name]\<close>: the names
  are the option itself exactly when it is an array. The mapping is a plain object:
  under a name that is not one of its keys (the loader asks only for keys) the read
  gives what the object inherits.
\<close>

fun extensionArgs :: "ExtOptions \<Rightarrow> string \<Rightarrow> error + jsval" where
  "extensionArgs (Names ns) nm = Inr Undefined"
| "extensionArgs (Mapping m) nm =
     Inr (case map_of m nm of None \<Rightarrow> inheritedProperty nm | Some v \<Rightarrow> v)"
| "extensionArgs Unset nm = Inl TypeError"

text \<open>
  The callback given to \<^verbatim>\<open>reduceProperties\<close>, for one export of the module
  \<open>resName\<close>. A bare \<^verbatim>\<open>return;\<close> returns \<^verbatim>\<open>undefined\<close>, here \<open>None\<close>.
\<close>

definition reduceExport ::
  "ExtOptions \<Rightarrow> string \<Rightarrow> Extension list option \<Rightarrow> jsval \<Rightarrow> string \<Rightarrow> CacheState
     \<Rightarrow> (error + Extension list option) \<times> CacheState" where
  "reduceExport extOptions resName aggregate potentialExtension key st =
     (if \<not> truthy potentialExtension then (Inr None, st)
      else
        case js_get potentialExtension ''extension-kind'' of
          Str annotatedKind \<Rightarrow>
            (case extensionArgs extOptions resName of
               Inl e \<Rightarrow> (Inl e, st)
             | Inr a \<Rightarrow>
                (let ext = \<lparr>name = (if key \<noteq> ''default'' then resName @ ''['' @ key @ '']'' else resName),
                            args = a, kind = annotatedKind, ctor = None, extension' = None,
                            profiles = None\<rparr>
                 in if kind ext = SemanticLint \<or> kind ext = SyntacticLint
                    then
                      if typeof potentialExtension \<noteq> ''function''
                      then (Inr None,
                            st\<lparr>diagnostics := diagnostics st @
                              [createCompilerDiagnostic
                                 Extension_0_exported_member_1_has_extension_kind_2_but_was_type_3_when_type_4_was_expected
                                 [Str resName, Str key, js_get ExtensionKind annotatedKind,
                                  Str (typeof potentialExtension), Str ''function'']]\<rparr>)
                      else (array_push aggregate (ext\<lparr>ctor := Some potentialExtension\<rparr>), st)
                    else (array_push aggregate (ext\<lparr>extension' := Some potentialExtension\<rparr>), st)))
        | _ \<Rightarrow> (Inr aggregate, st))"

text \<open>
  Modelled from the spec: \<^verbatim>\<open>reduceProperties\<close> is not in the source file. It visits
  every property in enumeration order; as the reduction over properties that its
  name and its callback (aggregate, value, key, returning the aggregate) describe,
  it passes what one call returns to the next call and returns what the last call
  returned. A call that throws ends it.
\<close>

fun reduceProperties ::
  "(string \<times> jsval) list \<Rightarrow> ('u \<Rightarrow> jsval \<Rightarrow> string \<Rightarrow> 's \<Rightarrow> (error + 'u) \<times> 's) \<Rightarrow> 'u \<Rightarrow> 's
     \<Rightarrow> (error + 'u) \<times> 's" where
  "reduceProperties [] callback result st = (Inr result, st)"
| "reduceProperties ((key, v) # ps) callback result st =
     (case callback result v key st of
        (Inl e, st') \<Rightarrow> (Inl e, st')
      | (Inr result', st') \<Rightarrow> reduceProperties ps callback result' st')"

text \<open>The body of the second \<^verbatim>\<open>map\<close>: the descriptors of one loaded module.\<close>

definition preparedExtensionObject ::
  "ExtOptions \<Rightarrow> ExtensionLoadResult \<Rightarrow> CacheState \<Rightarrow> (error + Extension list option) \<times> CacheState" where
  "preparedExtensionObject extOptions res st =
     (if truthy (res_result res)
      then reduceProperties (js_props (res_result res)) (reduceExport extOptions (res_name res))
             (Some []) st
      else (Inr (Some []), st))"

fun preparedExtensionObjects ::
  "ExtOptions \<Rightarrow> ExtensionLoadResult list \<Rightarrow> CacheState
     \<Rightarrow> (error + Extension list option list) \<times> CacheState" where
  "preparedExtensionObjects extOptions [] st = (Inr [], st)"
| "preparedExtensionObjects extOptions (res # ress) st =
     (case preparedExtensionObject extOptions res st of
        (Inl e, st1) \<Rightarrow> (Inl e, st1)
      | (Inr x, st1) \<Rightarrow>
          (case preparedExtensionObjects extOptions ress st1 of
             (Inl e, st2) \<Rightarrow> (Inl e, st2)
           | (Inr xs, st2) \<Rightarrow> (Inr (x # xs), st2)))"

text \<open>
  Modelled from the spec: \<^verbatim>\<open>flatten\<close> and \<^verbatim>\<open>groupBy\<close> are not in the source file.
  \<open>flatten\<close> concatenates the per-module lists, keeping module order and the order
  within a module; an entry that is \<^verbatim>\<open>undefined\<close> and not a list stays one
  \<^verbatim>\<open>undefined\<close> element, as array concatenation leaves it. \<open>groupBy\<close> groups the
  sequence by the classifier, each group in insertion order, and answers nothing
  for the empty sequence, for which the caller has \<^verbatim>\<open>|| {}\<close>. The classifier of the
  source, \<^verbatim>\<open>elem => elem.kind\<close>, throws on an \<^verbatim>\<open>undefined\<close> element.
\<close>

definition flatten :: "'a list option list \<Rightarrow> 'a option list" where
  "flatten array1 =
     concat (map (\<lambda>x. case x of None \<Rightarrow> [None] | Some xs \<Rightarrow> map Some xs) array1)"

fun groupInto ::
  "('a \<Rightarrow> string) \<Rightarrow> 'a option list \<Rightarrow> (string \<rightharpoonup> 'a list) \<Rightarrow> error + (string \<rightharpoonup> 'a list)" where
  "groupInto classifier [] ret = Inr ret"
| "groupInto classifier (None # xs) ret = Inl TypeError"
| "groupInto classifier (Some elem # xs) ret =
     groupInto classifier xs
       (ret(classifier elem \<mapsto> (case ret (classifier elem) of None \<Rightarrow> [] | Some g \<Rightarrow> g) @ [elem]))"

definition groupBy ::
  "'a option list \<Rightarrow> ('a \<Rightarrow> string) \<Rightarrow> error + (string \<rightharpoonup> 'a list) option" where
  "groupBy array classifier =
     (if array = [] then Inr None
      else case groupInto classifier array Map.empty of
             Inl e \<Rightarrow> Inl e
           | Inr ret \<Rightarrow> Inr (Some ret))"

definition extensionNames :: "ExtOptions \<Rightarrow> string list" where
  "extensionNames extOptions = (case extOptions of Names ns \<Rightarrow> ns | _ \<Rightarrow> getKeys extOptions)"

text \<open>\<^verbatim>\<open>host.getCurrentDirectory ? host.getCurrentDirectory() : ""\<close>\<close>

definition currentDirectory :: "ExtensionHost \<Rightarrow> string" where
  "currentDirectory host = (case getCurrentDirectory host of Some d \<Rightarrow> d | None \<Rightarrow> [])"

definition collectCompilerExtensions ::
  "ExtOptions \<Rightarrow> ExtensionHost \<Rightarrow> CacheState \<Rightarrow> (error + ExtensionCollectionMap) \<times> CacheState" where
  "collectCompilerExtensions extOptions host st =
     (case extensionLoadResults host (currentDirectory host) (extensionNames extOptions) st of
        (Inl e, st1) \<Rightarrow> (Inl e, st1)
      | (Inr results, st1) \<Rightarrow>
          (let successfulExtensionLoadResults = filter (\<lambda>res. \<not> truthy (res_error res)) results
           in case preparedExtensionObjects extOptions successfulExtensionLoadResults st1 of
                (Inl e, st2) \<Rightarrow> (Inl e, st2)
              | (Inr prepared, st2) \<Rightarrow>
                  (case groupBy (flatten prepared) kind of
                     Inl e \<Rightarrow> (Inl e, st2)
                   | Inr None \<Rightarrow> (Inr Map.empty, st2)
                   | Inr (Some grouped) \<Rightarrow> (Inr grouped, st2))))"

text \<open>The two accessors of the cache. A throw leaves \<^verbatim>\<open>extensions\<close> unassigned.\<close>

definition getCompilerExtensions ::
  "ExtOptions \<Rightarrow> ExtensionHost \<Rightarrow> CacheState \<Rightarrow> (error + ExtensionCollectionMap) \<times> CacheState" where
  "getCompilerExtensions extOptions host st =
     (case extensions st of
        Some m \<Rightarrow> (Inr m, st)
      | None \<Rightarrow>
          (case collectCompilerExtensions extOptions host st of
             (Inl e, st') \<Rightarrow> (Inl e, st')
           | (Inr m, st') \<Rightarrow> (Inr m, st'\<lparr>extensions := Some m\<rparr>)))"

definition getExtensionLoadingDiagnostics ::
  "ExtOptions \<Rightarrow> ExtensionHost \<Rightarrow> CacheState \<Rightarrow> (error + Diagnostic list) \<times> CacheState" where
  "getExtensionLoadingDiagnostics extOptions host st =
     (case getCompilerExtensions extOptions host st of
        (Inl e, st') \<Rightarrow> (Inl e, st')
      | (Inr m, st') \<Rightarrow> (Inr (diagnostics st'), st'))"

text \<open>A caller's sequence of accessor calls on one cache, with what each call gave.\<close>

datatype accessor = GetCompilerExtensions | GetExtensionLoadingDiagnostics

datatype reply = Groups ExtensionCollectionMap | Diagnostics "Diagnostic list"

fun callAccessor ::
  "ExtOptions \<Rightarrow> ExtensionHost \<Rightarrow> accessor \<Rightarrow> CacheState \<Rightarrow> (error + reply) \<times> CacheState" where
  "callAccessor extOptions host GetCompilerExtensions st =
     (case getCompilerExtensions extOptions host st of
        (Inl e, st') \<Rightarrow> (Inl e, st')
      | (Inr m, st') \<Rightarrow> (Inr (Groups m), st'))"
| "callAccessor extOptions host GetExtensionLoadingDiagnostics st =
     (case getExtensionLoadingDiagnostics extOptions host st of
        (Inl e, st') \<Rightarrow> (Inl e, st')
      | (Inr ds, st') \<Rightarrow> (Inr (Diagnostics ds), st'))"

fun callAccessors ::
  "ExtOptions \<Rightarrow> ExtensionHost \<Rightarrow> accessor list \<Rightarrow> CacheState \<Rightarrow> (error + reply) list \<times> CacheState" where
  "callAccessors extOptions host [] st = ([], st)"
| "callAccessors extOptions host (a # as) st =
     (let (r, st1) = callAccessor extOptions host a st;
          (rs, st2) = callAccessors extOptions host as st1
      in (r # rs, st2))"

text \<open>
  For the statements about the loader: the file that the host resolves a configured
  name to, from the configuration file in the current directory, and the files that
  one discovery pass asks the host to load (none without \<^verbatim>\<open>loadExtension\<close>).
\<close>

definition resolvedFile :: "ExtensionHost \<Rightarrow> string \<Rightarrow> string option" where
  "resolvedFile host nm =
     resolveModuleName host nm (combinePaths (currentDirectory host) ''tsconfig.json'')"

definition loadedFiles :: "ExtensionHost \<Rightarrow> string list \<Rightarrow> string list" where
  "loadedFiles host nms =
     (case loadExtension host of
        None \<Rightarrow> []
      | Some load \<Rightarrow> concat (map (\<lambda>nm. case resolvedFile host nm of None \<Rightarrow> [] | Some f \<Rightarrow> [f]) nms))"

section \<open>Example hosts and modules\<close>

text \<open>
  Exports: a class tagged with a kind, which is constructible, and a plain object
  carrying the same tag, which is not.
\<close>

definition lintClass :: "string \<Rightarrow> jsval" where
  "lintClass k = Fun ''class Walker { visit() {} }'' [(''extension-kind'', Str k)]"

definition taggedObject :: "string \<Rightarrow> jsval" where
  "taggedObject k = Obj [(''extension-kind'', Str k)]"

text \<open>
  A string conversion for the hosts of the examples: an object prints as
  \<^verbatim>\<open>[object Object]\<close> unless it has an own \<^verbatim>\<open>toString\<close>, here one that is no
  function, on which the conversion throws; a function prints its source.
\<close>

fun exampleToString :: "jsval \<Rightarrow> error + string" where
  "exampleToString (Obj ps) =
     (case map_of ps ''toString'' of None \<Rightarrow> Inr ''[object Object]'' | Some v \<Rightarrow> Inl TypeError)"
| "exampleToString (Fun src ps) = Inr src"
| "exampleToString v = Inl TypeError"

text \<open>
  A host that resolves every name into \<^verbatim>\<open>/project/node_modules\<close> and loads with the
  given function, and a host whose resolver finds nothing.
\<close>

definition hostLoading :: "(string \<Rightarrow> jsval + jsval) \<Rightarrow> ExtensionHost" where
  "hostLoading load =
     \<lparr>getCurrentDirectory = Some ''/project'',
      resolveModuleName = (\<lambda>nm containingFile. Some (''/project/node_modules/'' @ nm @ ''/index.js'')),
      loadExtension = Some load,
      newErrorStack = (\<lambda>msg. None),
      valueToString = exampleToString\<rparr>"

definition hostNotResolving :: ExtensionHost where
  "hostNotResolving =
     \<lparr>getCurrentDirectory = Some ''/project'',
      resolveModuleName = (\<lambda>nm containingFile. None),
      loadExtension = Some (\<lambda>file. Inr (Obj [])),
      newErrorStack = (\<lambda>msg. None),
      valueToString = exampleToString\<rparr>"

section \<open>Vocabulary of the statements about descriptors\<close>

text \<open>
  \<open>isDescriptorOf\<close>: the descriptor \<open>e\<close> is the one built for the export \<open>v\<close> under
  \<open>key\<close> of the module \<open>moduleName\<close>. \<open>notAnExtension\<close>: an export that is present but
  carries no string-valued kind tag.
\<close>

definition isDescriptorOf :: "ExtOptions \<Rightarrow> string \<Rightarrow> string \<Rightarrow> jsval \<Rightarrow> Extension \<Rightarrow> bool" where
  "isDescriptorOf extOptions moduleName key v e =
     (name e = (if key \<noteq> ''default'' then moduleName @ ''['' @ key @ '']'' else moduleName)
      \<and> extensionArgs extOptions moduleName = Inr (args e)
      \<and> js_get v ''extension-kind'' = Str (kind e)
      \<and> (ctor e = Some v \<or> extension' e = Some v)
      \<and> profiles e = None)"

definition notAnExtension :: "jsval \<Rightarrow> bool" where
  "notAnExtension v =
     (truthy v \<and> (case js_get v ''extension-kind'' of Str k \<Rightarrow> False | _ \<Rightarrow> True))"

section \<open>The profiling recorder: properties\<close>

lemma get_own: "own m t = Some r \<Longrightarrow> profiles_get m t = Record r"
  by (simp add: profiles_get_def)

lemma get_no_own:
  "own m t = None \<Longrightarrow> profiles_get m t =
     (case proto m of
             Some r \<Rightarrow>
               (if t = ''__proto__'' then Record r
                else if t = ''task'' then Inherited (Str (task r))
                else if t = ''start'' then Inherited (Num (start r))
                else if t = ''length'' then Inherited (Num (length' r))
                else Inherited (inheritedProperty t))
           | None \<Rightarrow> Inherited (inheritedProperty t))"
  by (simp add: profiles_get_def)

lemma get_record_iff:
  "profiles_get m t = Record r \<longleftrightarrow>
     (own m t = Some r \<or> (own m t = None \<and> t = ''__proto__'' \<and> proto m = Some r))"
  by (cases "own m t"; cases "proto m"; simp add: get_own get_no_own)

lemma profileOf_eq:
  "profileOf ext t =
     (case profiles ext of
        None \<Rightarrow> None
      | Some m \<Rightarrow>
          (case own m t of Some r \<Rightarrow> Some r
           | None \<Rightarrow> if t = ''__proto__'' then proto m else None))"
proof (cases "profiles ext")
  case None
  then show ?thesis by (simp add: profileOf_def)
next
  case (Some m)
  then show ?thesis
    by (cases "own m t"; cases "proto m") (simp_all add: profileOf_def get_own get_no_own)
qed

lemma profileOf_start:
  "profileOf (startExtensionProfile ext t now) t' =
     (if t' = t then Some \<lparr>task = t, start = now, length' = - 1\<rparr> else profileOf ext t')"
proof -
  define r where "r = \<lparr>task = t, start = now, length' = - 1\<rparr>"
  define m where "m = (case profiles ext of None \<Rightarrow> \<lparr>own = Map.empty, proto = None\<rparr> | Some m \<Rightarrow> m)"
  have p: "profiles (startExtensionProfile ext t now) = Some (profiles_set m t r)"
    by (simp add: startExtensionProfile_def m_def r_def)
  have e: "profileOf ext t' = (case own m t' of Some r \<Rightarrow> Some r
           | None \<Rightarrow> if t' = ''__proto__'' then proto m else None)"
    by (simp add: profileOf_eq m_def split: option.splits)
  show ?thesis
  proof (cases "t = ''__proto__'' \<and> own m t = None")
    case True
    then have a: "t = ''__proto__''" and b: "own m ''__proto__'' = None" by auto
    have "profiles_set m t r = m\<lparr>proto := Some r\<rparr>"
      by (simp add: profiles_set_def a b)
    with p e a b show ?thesis
      unfolding r_def [symmetric] by (cases "t' = t") (auto simp: profileOf_eq split: option.splits)
  next
    case False
    then have "profiles_set m t r = m\<lparr>own := (own m)(t \<mapsto> r)\<rparr>"
      unfolding profiles_set_def by (simp only: if_False)
    with p e False show ?thesis
      unfolding r_def [symmetric] by (cases "t' = t") (auto simp: profileOf_eq split: option.splits)
  qed
qed

lemma complete_returns_iff:
  "(\<exists>ext'. completeExtensionProfile ext t endTime = Inr ext') \<longleftrightarrow>
     (\<exists>m. profiles ext = Some m \<and> slotTruthy (profiles_get m t))"
  by (auto simp: completeExtensionProfile_def Debug_assert_def split: if_splits)

lemma complete_returns_on_record:
  "profileOf ext t \<noteq> None \<Longrightarrow> \<exists>ext'. completeExtensionProfile ext t endTime = Inr ext'"
  by (auto simp: complete_returns_iff profileOf_def split: option.splits profileSlot.splits)

lemma complete_result:
  assumes "completeExtensionProfile ext t endTime = Inr ext'"
  shows "\<exists>m. profiles ext = Some m \<and> ext' = ext\<lparr>profiles := Some (profiles_setLength m t endTime)\<rparr>"
  using assms
  by (auto simp: completeExtensionProfile_def Debug_assert_def split: if_splits)

lemma profileOf_complete:
  assumes "completeExtensionProfile ext t endTime = Inr ext'"
  shows "profileOf ext' t' =
           (if t' = t then map_option (\<lambda>r. r\<lparr>length' := endTime - start r\<rparr>) (profileOf ext t)
            else profileOf ext t')"
proof -
  from complete_result [OF assms] obtain m where
    m: "profiles ext = Some m" and e: "ext' = ext\<lparr>profiles := Some (profiles_setLength m t endTime)\<rparr>"
    by blast
  show ?thesis
  proof (cases "own m t")
    case (Some r)
    then show ?thesis
      by (cases "t' = t") (auto simp: profileOf_eq m e profiles_setLength_def split: option.splits)
  next
    case None
    show ?thesis
    proof (cases "proto m")
      case n: None
      with None show ?thesis
        by (auto simp: profileOf_eq m e profiles_setLength_def split: option.splits)
    next
      case (Some r)
      with None show ?thesis
        by (cases "t = ''__proto__''"; cases "t' = t")
           (auto simp: profileOf_eq m e profiles_setLength_def split: option.splits)
    qed
  qed
qed




text \<open>
  C8, as stated, at a concrete input. The task \<^verbatim>\<open>walk\<close> is started when the clock
  reads 130 and completed when it reads 100, the clock having been set back in
  between: the record has the length \<open>-30\<close>.
\<close>

theorem profile_length_counterexample:
  "completeExtensionProfile
      (startExtensionProfile
         \<lparr>name = ''lint'', args = Undefined, kind = ''syntactic-lint'', ctor = None,
          extension' = None, profiles = None\<rparr> ''walk'' 130) ''walk'' 100 =
     Inr \<lparr>name = ''lint'', args = Undefined, kind = ''syntactic-lint'', ctor = None,
          extension' = None,
          profiles = Some \<lparr>own = [''walk'' \<mapsto> \<lparr>task = ''walk'', start = 130, length' = - 30\<rparr>],
                           proto = None\<rparr>\<rparr>"
  by (simp add: completeExtensionProfile_def startExtensionProfile_def Debug_assert_def
        profiles_set_def profiles_get_def profiles_setLength_def)

text \<open>
  C8, amended. For every descriptor and task, a start of the task when the clock
  reads \<open>t0\<close> followed by its completion when the clock reads \<open>t1\<close> returns, and
  leaves for the task the record with the start \<open>t0\<close> that the start call wrote and
  the length \<open>t1 - t0\<close>; the length is not negative exactly when the second reading
  of the clock is not earlier than the first. Starting a task gives it a fresh
  in-flight record (length \<open>-1\<close>) whatever record it had before: the start is a total
  function and reports no duplicate.
\<close>

theorem profile_start_then_complete:
  "(\<exists>d' r. completeExtensionProfile (startExtensionProfile d T t0) T t1 = Inr d'
             \<and> profileOf d' T = Some r
             \<and> r = \<lparr>task = T, start = t0, length' = t1 - t0\<rparr>
             \<and> (0 \<le> length' r \<longleftrightarrow> t0 \<le> t1))
   \<and> profileOf (startExtensionProfile (startExtensionProfile d T t) T t0) T
        = Some \<lparr>task = T, start = t0, length' = - 1\<rparr>"
proof -
  have "profileOf (startExtensionProfile d T t0) T \<noteq> None"
    by (simp add: profileOf_start)
  then obtain d' where c: "completeExtensionProfile (startExtensionProfile d T t0) T t1 = Inr d'"
    using complete_returns_on_record by blast
  have "profileOf d' T = Some \<lparr>task = T, start = t0, length' = t1 - t0\<rparr>"
    by (simp add: profileOf_complete [OF c] profileOf_start)
  with c show ?thesis
    by (simp add: profileOf_start)
qed

theorem profile_start_then_complete_witness:
  "(\<exists>d'. completeExtensionProfile
            (startExtensionProfile
               \<lparr>name = ''lint'', args = Undefined, kind = ''syntactic-lint'', ctor = None,
                extension' = None, profiles = None\<rparr> ''walk'' 100) ''walk'' 130 = Inr d'
         \<and> profileOf d' ''walk'' = Some \<lparr>task = ''walk'', start = 100, length' = 30\<rparr>)
   \<and> (\<exists>d'. completeExtensionProfile
            (startExtensionProfile
               \<lparr>name = ''lint'', args = Undefined, kind = ''syntactic-lint'', ctor = None,
                extension' = None, profiles = None\<rparr> ''__proto__'' 100) ''__proto__'' 130 = Inr d'
         \<and> profileOf d' ''__proto__'' = Some \<lparr>task = ''__proto__'', start = 100, length' = 30\<rparr>)"
  using profile_start_then_complete [of
      "\<lparr>name = ''lint'', args = Undefined, kind = ''syntactic-lint'', ctor = None,
        extension' = None, profiles = None\<rparr>" "''walk''" 100 130]
    profile_start_then_complete [of
      "\<lparr>name = ''lint'', args = Undefined, kind = ''syntactic-lint'', ctor = None,
        extension' = None, profiles = None\<rparr>" "''__proto__''" 100 130]
  by simp




section \<open>The loader: what a pass changes in the cache\<close>

lemma reduceExport_frame:
  assumes "reduceExport eo rn agg pe key st = (r, st')"
  shows "extensions st' = extensions st \<and> loadCalls st' = loadCalls st
         \<and> (\<exists>ds. diagnostics st' = diagnostics st @ ds)"
  using assms
  by (auto simp: reduceExport_def Let_def split: if_splits jsval.splits sum.splits)

lemma reduceProperties_frame:
  "reduceProperties ps (reduceExport eo rn) agg st = (r, st') \<Longrightarrow>
     extensions st' = extensions st \<and> loadCalls st' = loadCalls st
     \<and> (\<exists>ds. diagnostics st' = diagnostics st @ ds)"
proof (induction ps arbitrary: agg st)
  case Nil
  then show ?case by simp
next
  case (Cons p ps)
  obtain key v where p: "p = (key, v)" by (cases p)
  obtain r1 s1 where c: "reduceExport eo rn agg v key st = (r1, s1)" by fastforce
  note f = reduceExport_frame [OF c]
  show ?case
  proof (cases r1)
    case (Inl e)
    with Cons.prems p c f show ?thesis by simp
  next
    case (Inr agg1)
    with Cons.prems p c have "reduceProperties ps (reduceExport eo rn) agg1 s1 = (r, st')"
      by simp
    from Cons.IH [OF this] f show ?thesis by auto
  qed
qed

lemma preparedExtensionObject_frame:
  "preparedExtensionObject eo res st = (r, st') \<Longrightarrow>
     extensions st' = extensions st \<and> loadCalls st' = loadCalls st
     \<and> (\<exists>ds. diagnostics st' = diagnostics st @ ds)"
  by (auto simp: preparedExtensionObject_def split: if_splits dest: reduceProperties_frame)

lemma preparedExtensionObjects_frame:
  "preparedExtensionObjects eo ress st = (r, st') \<Longrightarrow>
     extensions st' = extensions st \<and> loadCalls st' = loadCalls st
     \<and> (\<exists>ds. diagnostics st' = diagnostics st @ ds)"
proof (induction ress arbitrary: st r)
  case Nil
  then show ?case by simp
next
  case (Cons res ress)
  obtain r1 s1 where c: "preparedExtensionObject eo res st = (r1, s1)" by fastforce
  note f = preparedExtensionObject_frame [OF c]
  show ?case
  proof (cases r1)
    case (Inl e)
    with Cons.prems c f show ?thesis by simp
  next
    case (Inr x)
    obtain r2 s2 where d: "preparedExtensionObjects eo ress s1 = (r2, s2)" by fastforce
    from Cons.prems c Inr d have "st' = s2" by (auto split: sum.splits)
    with d have "preparedExtensionObjects eo ress s1 = (r2, st')" by simp
    from Cons.IH [OF this] f show ?thesis by auto
  qed
qed

lemma extensionLoadResult_loadCalls:
  "extensionLoadResult host (currentDirectory host) nm st = (r, st') \<Longrightarrow>
     loadCalls st' = loadCalls st @ loadedFiles host [nm] \<and> extensions st' = extensions st"
  by (auto simp: extensionLoadResult_def loadedFiles_def resolvedFile_def Let_def
           split: option.splits sum.splits if_splits)

lemma loadedFiles_Cons:
  "loadedFiles host (nm # nms) = loadedFiles host [nm] @ loadedFiles host nms"
  by (simp add: loadedFiles_def split: option.splits)

lemma extensionLoadResults_Cons:
  assumes "extensionLoadResults host cd (nm # nms) st = (Inr ress, st')"
  obtains res s1 rs where "extensionLoadResult host cd nm st = (Inr res, s1)"
    and "extensionLoadResults host cd nms s1 = (Inr rs, st')" and "ress = res # rs"
proof -
  obtain r1 s1 where a: "extensionLoadResult host cd nm st = (r1, s1)" by fastforce
  obtain r2 s2 where b: "extensionLoadResults host cd nms s1 = (r2, s2)" by fastforce
  from assms a b obtain res rs where "r1 = Inr res" "r2 = Inr rs" "ress = res # rs" "st' = s2"
    by (auto split: sum.splits)
  with a b that show thesis by blast
qed

lemma extensionLoadResults_loadCalls:
  "extensionLoadResults host (currentDirectory host) nms st = (Inr ress, st') \<Longrightarrow>
     loadCalls st' = loadCalls st @ loadedFiles host nms \<and> extensions st' = extensions st"
proof (induction nms arbitrary: st ress)
  case Nil
  then show ?case by (simp add: loadedFiles_def split: option.splits)
next
  case (Cons nm nms)
  from Cons.prems obtain res s1 rs where
    a: "extensionLoadResult host (currentDirectory host) nm st = (Inr res, s1)" and
    b: "extensionLoadResults host (currentDirectory host) nms s1 = (Inr rs, st')"
    by (rule extensionLoadResults_Cons)
  from Cons.IH [OF b] extensionLoadResult_loadCalls [OF a] show ?case
    by (simp add: loadedFiles_Cons [of host nm nms])
qed

lemma collectCompilerExtensions_Inr:
  assumes "collectCompilerExtensions eo host st = (Inr groups, st')"
  obtains ress s1 xs where
    "extensionLoadResults host (currentDirectory host) (extensionNames eo) st = (Inr ress, s1)"
    and "preparedExtensionObjects eo (filter (\<lambda>res. \<not> truthy (res_error res)) ress) s1 = (Inr xs, st')"
    and "groupBy (flatten xs) kind = Inr None \<and> groups = Map.empty
         \<or> groupBy (flatten xs) kind = Inr (Some groups)"
proof -
  obtain r1 s1 where
    a: "extensionLoadResults host (currentDirectory host) (extensionNames eo) st = (r1, s1)"
    by fastforce
  from assms a obtain ress where r1: "r1 = Inr ress"
    by (cases r1) (auto simp: collectCompilerExtensions_def)
  obtain r2 s2 where
    b: "preparedExtensionObjects eo (filter (\<lambda>res. \<not> truthy (res_error res)) ress) s1 = (r2, s2)"
    by fastforce
  from assms a r1 b obtain xs where r2: "r2 = Inr xs"
    by (cases r2) (auto simp: collectCompilerExtensions_def)
  from assms a r1 b r2 have "st' = s2" and
    "groupBy (flatten xs) kind = Inr None \<and> groups = Map.empty
         \<or> groupBy (flatten xs) kind = Inr (Some groups)"
    by (auto simp: collectCompilerExtensions_def split: sum.splits option.splits)
  with a r1 b r2 that show thesis by blast
qed

lemma collectCompilerExtensions_loadCalls:
  assumes "collectCompilerExtensions eo host st = (Inr groups, st')"
  shows "loadCalls st' = loadCalls st @ loadedFiles host (extensionNames eo)
         \<and> extensions st' = extensions st"
proof -
  from assms obtain ress s1 xs where
    a: "extensionLoadResults host (currentDirectory host) (extensionNames eo) st = (Inr ress, s1)" and
    b: "preparedExtensionObjects eo (filter (\<lambda>res. \<not> truthy (res_error res)) ress) s1 = (Inr xs, st')"
    by (rule collectCompilerExtensions_Inr)
  with extensionLoadResults_loadCalls [OF a] preparedExtensionObjects_frame [OF b]
  show ?thesis by simp
qed

lemma callAccessor_memoized:
  "extensions st = Some m \<Longrightarrow>
     callAccessor eo host a st =
       (Inr (case a of GetCompilerExtensions \<Rightarrow> Groups m
                     | GetExtensionLoadingDiagnostics \<Rightarrow> Diagnostics (diagnostics st)), st)"
  by (cases a) (simp_all add: getCompilerExtensions_def getExtensionLoadingDiagnostics_def)

lemma callAccessors_memoized:
  "extensions st = Some m \<Longrightarrow>
     callAccessors eo host calls st =
       (map (\<lambda>a. Inr (case a of GetCompilerExtensions \<Rightarrow> Groups m
                              | GetExtensionLoadingDiagnostics \<Rightarrow> Diagnostics (diagnostics st)))
            calls, st)"
  by (induction calls) (simp_all add: callAccessor_memoized)

lemma getCompilerExtensions_first:
  assumes "getCompilerExtensions eo host createExtensionCache = (Inr m, s1)"
  shows "extensions s1 = Some m \<and> loadCalls s1 = loadedFiles host (extensionNames eo)"
proof -
  obtain r s where c: "collectCompilerExtensions eo host createExtensionCache = (r, s)"
    by fastforce
  with assms have r: "r = Inr m" and s: "s1 = s\<lparr>extensions := Some m\<rparr>"
    by (auto simp: getCompilerExtensions_def createExtensionCache_def split: sum.splits)
  from c r have "collectCompilerExtensions eo host createExtensionCache = (Inr m, s)" by simp
  from collectCompilerExtensions_loadCalls [OF this]
  have "loadCalls s = loadedFiles host (extensionNames eo)"
    by (simp add: createExtensionCache_def)
  with s show ?thesis by simp
qed

lemma callAccessor_first:
  assumes "callAccessor eo host a createExtensionCache = (Inr r, s1)"
  shows "\<exists>m. extensions s1 = Some m \<and> loadCalls s1 = loadedFiles host (extensionNames eo)
           \<and> r = (case a of GetCompilerExtensions \<Rightarrow> Groups m
                     | GetExtensionLoadingDiagnostics \<Rightarrow> Diagnostics (diagnostics s1))"
proof -
  obtain r0 s0 where g: "getCompilerExtensions eo host createExtensionCache = (r0, s0)"
    by fastforce
  show ?thesis
  proof (cases r0)
    case (Inl e)
    with assms g show ?thesis
      by (cases a) (simp_all add: getExtensionLoadingDiagnostics_def)
  next
    case (Inr m)
    with g have g': "getCompilerExtensions eo host createExtensionCache = (Inr m, s0)" by simp
    from assms g' have "s1 = s0"
      by (cases a) (simp_all add: getExtensionLoadingDiagnostics_def)
    with getCompilerExtensions_first [OF g'] assms g' show ?thesis
      by (cases a) (auto simp: getExtensionLoadingDiagnostics_def)
  qed
qed

section \<open>The cache: memoization\<close>

text \<open>
  C3, as stated, at a concrete input. With the single configured name \<^verbatim>\<open>foo\<close> and a
  host whose resolver does not find it, two calls of \<^verbatim>\<open>getCompilerExtensions\<close>
  leave \<^verbatim>\<open>loadExtension\<close> never invoked: the number of invocations is not the
  number of configured names.
\<close>

theorem loader_called_once_counterexample:
  "length (loadCalls (snd (getCompilerExtensions (Names [''foo'']) hostNotResolving
             (snd (getCompilerExtensions (Names [''foo'']) hostNotResolving createExtensionCache)))))
     \<noteq> length (extensionNames (Names [''foo'']))"
  by (simp add: getCompilerExtensions_def collectCompilerExtensions_def createExtensionCache_def
        extensionNames_def extensionLoadResult_def hostNotResolving_def newError_def
        createCompilerDiagnostic_def groupBy_def flatten_def)

text \<open>
  C3, amended. Once a first accessor call on a fresh cache has returned, the cache
  holds the grouping; every later call of either accessor returns that grouping, or
  the diagnostics of that one pass, and leaves the cache as it is. \<^verbatim>\<open>loadExtension\<close>
  has been invoked once for each configured name that the host resolved, in
  configured order, and for no other name, however many calls follow.
\<close>

theorem discovery_memoized:
  assumes "callAccessor extOptions host a createExtensionCache = (Inr r, s1)"
  shows "\<exists>m. extensions s1 = Some m
           \<and> r = (case a of GetCompilerExtensions \<Rightarrow> Groups m
                     | GetExtensionLoadingDiagnostics \<Rightarrow> Diagnostics (diagnostics s1))
           \<and> callAccessors extOptions host calls s1 =
               (map (\<lambda>c. Inr (case c of GetCompilerExtensions \<Rightarrow> Groups m
                                      | GetExtensionLoadingDiagnostics \<Rightarrow> Diagnostics (diagnostics s1)))
                    calls, s1)
           \<and> loadCalls s1 = loadedFiles host (extensionNames extOptions)"
proof -
  from callAccessor_first [OF assms] obtain m where
    m: "extensions s1 = Some m" "loadCalls s1 = loadedFiles host (extensionNames extOptions)"
       "r = (case a of GetCompilerExtensions \<Rightarrow> Groups m
                     | GetExtensionLoadingDiagnostics \<Rightarrow> Diagnostics (diagnostics s1))"
    by blast
  from m callAccessors_memoized [OF m(1), of extOptions host calls] show ?thesis
    by blast
qed

lemma example_default_run:
  "getCompilerExtensions (Names [''foo''])
       (hostLoading (\<lambda>file. Inr (Obj [(''default'', lintClass SemanticLint)]))) createExtensionCache =
     (Inr [SemanticLint \<mapsto>
            [\<lparr>name = ''foo'', args = Undefined, kind = SemanticLint,
              ctor = Some (lintClass SemanticLint), extension' = None, profiles = None\<rparr>]],
      \<lparr>extensions = Some [SemanticLint \<mapsto>
            [\<lparr>name = ''foo'', args = Undefined, kind = SemanticLint,
              ctor = Some (lintClass SemanticLint), extension' = None, profiles = None\<rparr>]],
       diagnostics = [], loadCalls = [''/project/node_modules/foo/index.js'']\<rparr>)"
  by (simp add: getCompilerExtensions_def collectCompilerExtensions_def createExtensionCache_def
        extensionNames_def extensionLoadResult_def hostLoading_def currentDirectory_def
        combinePaths_def preparedExtensionObject_def reduceExport_def lintClass_def
        array_push_def groupBy_def flatten_def)

theorem discovery_memoized_witness:
  "callAccessors (Names [''foo''])
       (hostLoading (\<lambda>file. Inr (Obj [(''default'', lintClass SemanticLint)])))
       [GetCompilerExtensions, GetCompilerExtensions, GetExtensionLoadingDiagnostics]
       createExtensionCache =
     ([Inr (Groups [SemanticLint \<mapsto>
            [\<lparr>name = ''foo'', args = Undefined, kind = SemanticLint,
              ctor = Some (lintClass SemanticLint), extension' = None, profiles = None\<rparr>]]),
       Inr (Groups [SemanticLint \<mapsto>
            [\<lparr>name = ''foo'', args = Undefined, kind = SemanticLint,
              ctor = Some (lintClass SemanticLint), extension' = None, profiles = None\<rparr>]]),
       Inr (Diagnostics [])],
      \<lparr>extensions = Some [SemanticLint \<mapsto>
            [\<lparr>name = ''foo'', args = Undefined, kind = SemanticLint,
              ctor = Some (lintClass SemanticLint), extension' = None, profiles = None\<rparr>]],
       diagnostics = [], loadCalls = [''/project/node_modules/foo/index.js'']\<rparr>)"
proof -
  let ?host = "hostLoading (\<lambda>file. Inr (Obj [(''default'', lintClass SemanticLint)]))"
  let ?m = "[SemanticLint \<mapsto>
            [\<lparr>name = ''foo'', args = Undefined, kind = SemanticLint,
              ctor = Some (lintClass SemanticLint), extension' = None, profiles = None\<rparr>]]"
  let ?s = "\<lparr>extensions = Some ?m, diagnostics = [],
             loadCalls = [''/project/node_modules/foo/index.js'']\<rparr>"
  have h: "callAccessor (Names [''foo'']) ?host GetCompilerExtensions createExtensionCache =
             (Inr (Groups ?m), ?s)"
    by (simp add: example_default_run)
  from discovery_memoized [OF h, of "[GetCompilerExtensions, GetExtensionLoadingDiagnostics]"]
  obtain m where m: "extensions ?s = Some m"
    and c: "callAccessors (Names [''foo'']) ?host
              [GetCompilerExtensions, GetExtensionLoadingDiagnostics] ?s =
            (map (\<lambda>c. Inr (case c of GetCompilerExtensions \<Rightarrow> Groups m
                                   | GetExtensionLoadingDiagnostics \<Rightarrow> Diagnostics (diagnostics ?s)))
                 [GetCompilerExtensions, GetExtensionLoadingDiagnostics], ?s)"
    by blast
  from m have "m = ?m" by simp
  with c have "callAccessors (Names [''foo'']) ?host
          [GetCompilerExtensions, GetExtensionLoadingDiagnostics] ?s =
        ([Inr (Groups ?m), Inr (Diagnostics [])], ?s)"
    by (simp del: callAccessors.simps)
  with h show ?thesis by simp
qed

section \<open>The loader: one configured name\<close>

lemma single_name_nothing_prepared:
  assumes "extensionNames extOptions = [nm]"
    and "extensionLoadResult host (currentDirectory host) nm createExtensionCache = (Inr res, s)"
    and "truthy (res_error res) \<or> \<not> truthy (res_result res)"
  shows "getCompilerExtensions extOptions host createExtensionCache =
           (Inr Map.empty, s\<lparr>extensions := Some Map.empty\<rparr>)"
proof -
  have e: "extensions createExtensionCache = None"
    by (simp add: createExtensionCache_def)
  from assms(3) have
    "preparedExtensionObjects extOptions (filter (\<lambda>res. \<not> truthy (res_error res)) [res]) s =
       (Inr (if truthy (res_error res) then [] else [Some []]), s)"
    by (auto simp: preparedExtensionObject_def)
  with assms(1,2) have "collectCompilerExtensions extOptions host createExtensionCache =
      (Inr Map.empty, s)"
    by (simp add: collectCompilerExtensions_def groupBy_def flatten_def)
  with e show ?thesis
    by (simp add: getCompilerExtensions_def)
qed


lemma load_returns:
  assumes "loadExtension host = Some load"
    and "resolvedFile host nm = Some file"
    and "load file = Inr v"
  shows "extensionLoadResult host (currentDirectory host) nm st =
           (Inr \<lparr>res_name = nm, res_result = v, res_error = Undefined\<rparr>,
            st\<lparr>loadCalls := loadCalls st @ [file]\<rparr>)"
  using assms by (simp add: extensionLoadResult_def resolvedFile_def)

text \<open>
  C10. When the host has \<^verbatim>\<open>loadExtension\<close>, the name resolves, and the load returns
  a falsy value without throwing, the load result has no error and no diagnostic is
  added; the result stays among the successful ones and its module contributes the
  empty descriptor list. As the only configured name it gives the empty grouping
  and an empty diagnostics list.
\<close>

theorem falsy_module_loads_empty:
  assumes "loadExtension host = Some load"
    and "resolvedFile host nm = Some file"
    and "load file = Inr v"
    and "\<not> truthy v"
  shows "extensionLoadResult host (currentDirectory host) nm st =
           (Inr \<lparr>res_name = nm, res_result = v, res_error = Undefined\<rparr>,
            st\<lparr>loadCalls := loadCalls st @ [file]\<rparr>)
         \<and> filter (\<lambda>res. \<not> truthy (res_error res))
              [\<lparr>res_name = nm, res_result = v, res_error = Undefined\<rparr>] =
              [\<lparr>res_name = nm, res_result = v, res_error = Undefined\<rparr>]
         \<and> preparedExtensionObject extOptions
              \<lparr>res_name = nm, res_result = v, res_error = Undefined\<rparr> st' = (Inr (Some []), st')
         \<and> (extensionNames extOptions = [nm] \<longrightarrow>
              getCompilerExtensions extOptions host createExtensionCache =
                (Inr Map.empty,
                 \<lparr>extensions = Some Map.empty, diagnostics = [], loadCalls = [file]\<rparr>))"
proof -
  note l = load_returns [OF assms(1-3)]
  have p: "preparedExtensionObject extOptions
              \<lparr>res_name = nm, res_result = v, res_error = Undefined\<rparr> st' = (Inr (Some []), st')"
    using assms(4) by (simp add: preparedExtensionObject_def)
  have "getCompilerExtensions extOptions host createExtensionCache =
                (Inr Map.empty,
                 \<lparr>extensions = Some Map.empty, diagnostics = [], loadCalls = [file]\<rparr>)"
    if "extensionNames extOptions = [nm]"
    using single_name_nothing_prepared [OF that l] assms(4)
    by (simp add: createExtensionCache_def)
  with l p show ?thesis by simp
qed

theorem falsy_module_loads_empty_witness:
  "getCompilerExtensions (Names [''foo'']) (hostLoading (\<lambda>file. Inr Undefined)) createExtensionCache =
     (Inr Map.empty,
      \<lparr>extensions = Some Map.empty, diagnostics = [],
       loadCalls = [''/project/node_modules/foo/index.js'']\<rparr>)"
proof -
  let ?host = "hostLoading (\<lambda>file. Inr Undefined)"
  have a: "loadExtension ?host = Some (\<lambda>file. Inr Undefined)"
    by (simp add: hostLoading_def)
  have b: "resolvedFile ?host ''foo'' = Some ''/project/node_modules/foo/index.js''"
    by (simp add: resolvedFile_def hostLoading_def)
  have c: "(\<lambda>file. Inr Undefined :: jsval + jsval) ''/project/node_modules/foo/index.js'' = Inr Undefined"
    by simp
  have d: "\<not> truthy Undefined" by simp
  from falsy_module_loads_empty [OF a b c d, of _ "Names [''foo'']"] show ?thesis
    by (simp add: extensionNames_def)
qed





section \<open>The classifier: where every descriptor comes from\<close>

lemma reduceExport_Some:
  assumes "reduceExport eo rn (Some es) pe key st = (Inr (Some es'), st')"
  shows "es' = es \<or> (\<exists>e. es' = es @ [e] \<and> isDescriptorOf eo rn key pe e)"
  using assms
  by (auto simp: reduceExport_def isDescriptorOf_def array_push_def Let_def
           split: if_splits jsval.splits sum.splits)

lemma reduceExport_None:
  "reduceExport eo rn None pe key st = (Inr r, st') \<Longrightarrow> r = None"
  by (auto simp: reduceExport_def array_push_def Let_def
           split: if_splits jsval.splits sum.splits)

lemma reduceProperties_None:
  "reduceProperties ps (reduceExport eo rn) None st = (Inr r, st') \<Longrightarrow> r = None"
proof (induction ps arbitrary: st)
  case Nil
  then show ?case by simp
next
  case (Cons p ps)
  obtain key v where p: "p = (key, v)" by (cases p)
  obtain r1 s1 where c: "reduceExport eo rn None v key st = (r1, s1)" by fastforce
  show ?case
  proof (cases r1)
    case (Inl e)
    with Cons.prems p c show ?thesis by simp
  next
    case (Inr a)
    with c have "a = None" by (auto dest: reduceExport_None)
    with Cons.prems p c Inr have "reduceProperties ps (reduceExport eo rn) None s1 = (Inr r, st')"
      by simp
    then show ?thesis by (rule Cons.IH)
  qed
qed

lemma reduceProperties_descriptors:
  "reduceProperties ps (reduceExport eo rn) (Some es) st = (Inr (Some es'), st') \<Longrightarrow>
     \<exists>new. es' = es @ new \<and> (\<forall>e\<in>set new. \<exists>(key, v)\<in>set ps. isDescriptorOf eo rn key v e)"
proof (induction ps arbitrary: es st)
  case Nil
  then show ?case by simp
next
  case (Cons p ps)
  obtain key v where p: "p = (key, v)" by (cases p)
  obtain r1 s1 where c: "reduceExport eo rn (Some es) v key st = (r1, s1)" by fastforce
  show ?case
  proof (cases r1)
    case (Inl e)
    with Cons.prems p c show ?thesis by simp
  next
    case (Inr a)
    with Cons.prems p c have r: "reduceProperties ps (reduceExport eo rn) a s1 = (Inr (Some es'), st')"
      by simp
    show ?thesis
    proof (cases a)
      case None
      with r show ?thesis by (auto dest: reduceProperties_None)
    next
      case (Some es1)
      with c Inr have "es1 = es \<or> (\<exists>e. es1 = es @ [e] \<and> isDescriptorOf eo rn key v e)"
        by (auto dest: reduceExport_Some)
      moreover from r Some obtain new where
        n: "es' = es1 @ new" "\<forall>e\<in>set new. \<exists>(key, v)\<in>set ps. isDescriptorOf eo rn key v e"
        using Cons.IH by blast
      ultimately show ?thesis using p
        by (elim disjE exE conjE) (rule exI [of _ new], fastforce, rule exI [of _ "_ # new"], fastforce)
    qed
  qed
qed

lemma preparedExtensionObject_descriptors:
  assumes "preparedExtensionObject eo res st = (Inr (Some es), st')" and "e \<in> set es"
  shows "\<exists>(key, v)\<in>set (js_props (res_result res)). isDescriptorOf eo (res_name res) key v e"
proof (cases "truthy (res_result res)")
  case True
  with assms(1) have "reduceProperties (js_props (res_result res)) (reduceExport eo (res_name res))
      (Some []) st = (Inr (Some es), st')"
    by (simp add: preparedExtensionObject_def)
  from reduceProperties_descriptors [OF this] assms(2) show ?thesis by auto
next
  case False
  with assms show ?thesis by (simp add: preparedExtensionObject_def)
qed

lemma extensionLoadResult_provenance:
  assumes "extensionLoadResult host (currentDirectory host) nm st = (Inr res, st')"
  shows "res_name res = nm \<and>
         (res_result res \<noteq> Undefined \<longrightarrow>
            (\<exists>load file. loadExtension host = Some load \<and> resolvedFile host nm = Some file
               \<and> load file = Inr (res_result res)))"
  using assms
  by (auto simp: extensionLoadResult_def resolvedFile_def Let_def
           split: option.splits sum.splits if_splits)

lemma extensionLoadResults_provenance:
  "extensionLoadResults host (currentDirectory host) nms st = (Inr ress, st') \<Longrightarrow> res \<in> set ress \<Longrightarrow>
     res_name res \<in> set nms \<and>
     (res_result res \<noteq> Undefined \<longrightarrow>
        (\<exists>load file. loadExtension host = Some load \<and> resolvedFile host (res_name res) = Some file
           \<and> load file = Inr (res_result res)))"
proof (induction nms arbitrary: st ress st')
  case Nil
  then show ?case by simp
next
  case (Cons nm nms)
  from Cons.prems(1) obtain r1 s1 rs where
    a: "extensionLoadResult host (currentDirectory host) nm st = (Inr r1, s1)" and
    b: "extensionLoadResults host (currentDirectory host) nms s1 = (Inr rs, st')" and
    c: "ress = r1 # rs"
    by (rule extensionLoadResults_Cons)
  from c Cons.prems(2) consider "res = r1" | "res \<in> set rs" by auto
  then show ?case
  proof cases
    case 1
    with extensionLoadResult_provenance [OF a] show ?thesis by simp
  next
    case 2
    from Cons.IH [OF b 2] show ?thesis by simp
  qed
qed

lemma preparedExtensionObjects_descriptors:
  "preparedExtensionObjects eo ress st = (Inr xs, st') \<Longrightarrow> Some es \<in> set xs \<Longrightarrow> e \<in> set es \<Longrightarrow>
     \<exists>res\<in>set ress. \<exists>(key, v)\<in>set (js_props (res_result res)).
        isDescriptorOf eo (res_name res) key v e"
proof (induction ress arbitrary: st xs st')
  case Nil
  then show ?case by simp
next
  case (Cons res ress)
  obtain r1 s1 where a: "preparedExtensionObject eo res st = (r1, s1)" by fastforce
  obtain r2 s2 where b: "preparedExtensionObjects eo ress s1 = (r2, s2)" by fastforce
  from Cons.prems(1) a b obtain x ys where
    x: "r1 = Inr x" "r2 = Inr ys" "xs = x # ys"
    by (auto split: sum.splits)
  from Cons.prems(2) x consider "x = Some es" | "Some es \<in> set ys" by auto
  then show ?case
  proof cases
    case 1
    with a x have "preparedExtensionObject eo res st = (Inr (Some es), s1)" by simp
    from preparedExtensionObject_descriptors [OF this Cons.prems(3)] show ?thesis by auto
  next
    case 2
    from b x have "preparedExtensionObjects eo ress s1 = (Inr ys, s2)" by simp
    from Cons.IH [OF this 2 Cons.prems(3)] show ?thesis by auto
  qed
qed

lemma flatten_Some:
  "Some e \<in> set (flatten xs) \<longleftrightarrow> (\<exists>es. Some es \<in> set xs \<and> e \<in> set es)"
  by (auto simp: flatten_def split: option.splits)

lemma groupInto_members:
  "groupInto cl xs ret = Inr g \<Longrightarrow> g k = Some es \<Longrightarrow> e \<in> set es \<Longrightarrow>
     (Some e \<in> set xs \<and> cl e = k) \<or> (\<exists>es0. ret k = Some es0 \<and> e \<in> set es0)"
proof (induction cl xs ret rule: groupInto.induct)
  case (1 classifier ret)
  then show ?case by simp
next
  case (2 classifier xs ret)
  then show ?case by simp
next
  case (3 classifier elem xs ret)
  from "3.prems" have "groupInto classifier xs
       (ret(classifier elem \<mapsto> (case ret (classifier elem) of None \<Rightarrow> [] | Some g \<Rightarrow> g) @ [elem])) = Inr g"
    by simp
  from "3.IH" [OF this "3.prems"(2,3)] show ?case
    by (auto split: if_splits option.splits)
qed

lemma groupBy_members:
  assumes "groupBy xs cl = Inr (Some g)" and "g k = Some es" and "e \<in> set es"
  shows "Some e \<in> set xs \<and> cl e = k"
proof -
  from assms(1) have "groupInto cl xs Map.empty = Inr g"
    by (auto simp: groupBy_def split: if_splits sum.splits)
  from groupInto_members [OF this assms(2,3)] show ?thesis by simp
qed

lemma collect_descriptors:
  assumes "collectCompilerExtensions eo host st = (Inr groups, s)"
    and "groups k = Some es" and "e \<in> set es"
  shows "kind e = k \<and>
         (\<exists>nm\<in>set (extensionNames eo). \<exists>load file exports.
            loadExtension host = Some load \<and> resolvedFile host nm = Some file
            \<and> load file = Inr exports
            \<and> (\<exists>(key, v)\<in>set (js_props exports). isDescriptorOf eo nm key v e))"
proof -
  from assms(1) obtain ress s1 xs where
    a: "extensionLoadResults host (currentDirectory host) (extensionNames eo) st = (Inr ress, s1)" and
    b: "preparedExtensionObjects eo (filter (\<lambda>res. \<not> truthy (res_error res)) ress) s1 = (Inr xs, s)" and
    g0: "groupBy (flatten xs) kind = Inr None \<and> groups = Map.empty
         \<or> groupBy (flatten xs) kind = Inr (Some groups)"
    by (rule collectCompilerExtensions_Inr)
  from g0 assms(2) have g: "groupBy (flatten xs) kind = Inr (Some groups)" by auto
  from groupBy_members [OF g assms(2,3)] have m: "Some e \<in> set (flatten xs)" and k: "kind e = k"
    by simp_all
  from m obtain es' where es': "Some es' \<in> set xs" "e \<in> set es'"
    by (auto simp: flatten_Some)
  from preparedExtensionObjects_descriptors [OF b es'] obtain res key v where
    r: "res \<in> set ress" "(key, v) \<in> set (js_props (res_result res))"
       "isDescriptorOf eo (res_name res) key v e"
    by auto
  from r(2) have "res_result res \<noteq> Undefined" by auto
  with extensionLoadResults_provenance [OF a r(1)] r k show ?thesis
    by blast
qed

lemma pass_descriptors:
  assumes "getCompilerExtensions eo host createExtensionCache = (Inr groups, s)"
    and "groups k = Some es" and "e \<in> set es"
  shows "kind e = k \<and>
         (\<exists>nm\<in>set (extensionNames eo). \<exists>load file exports.
            loadExtension host = Some load \<and> resolvedFile host nm = Some file
            \<and> load file = Inr exports
            \<and> (\<exists>(key, v)\<in>set (js_props exports). isDescriptorOf eo nm key v e))"
proof -
  from assms(1) obtain s0 where
    "collectCompilerExtensions eo host createExtensionCache = (Inr groups, s0)"
    by (auto simp: getCompilerExtensions_def createExtensionCache_def split: prod.splits sum.splits)
  from collect_descriptors [OF this assms(2,3)] show ?thesis .
qed

section \<open>The classifier: descriptor names and arguments\<close>

lemma reduceProperties_append:
  "reduceProperties (ps @ qs) cb r st =
     (case reduceProperties ps cb r st of
        (Inl e, s) \<Rightarrow> (Inl e, s)
      | (Inr r', s) \<Rightarrow> reduceProperties qs cb r' s)"
  by (induction ps cb r st rule: reduceProperties.induct) (auto split: prod.splits sum.splits)

lemma reduceExport_notAnExtension:
  "notAnExtension v \<Longrightarrow> reduceExport eo rn agg v key st = (Inr agg, st)"
  by (auto simp: reduceExport_def notAnExtension_def split: jsval.splits)

lemma reduceProperties_notAnExtension:
  "list_all (\<lambda>(key, v). notAnExtension v) ps \<Longrightarrow>
     reduceProperties ps (reduceExport eo rn) agg st = (Inr agg, st)"
  by (induction ps) (auto simp: reduceExport_notAnExtension)

lemma reduceExport_lint_class:
  assumes "map_of ps ''extension-kind'' = Some (Str k)"
    and "k = SemanticLint \<or> k = SyntacticLint"
    and "extensionArgs eo rn = Inr a"
  shows "reduceExport eo rn (Some es) (Fun src ps) key st =
           (Inr (Some (es @ [\<lparr>name = (if key \<noteq> ''default'' then rn @ ''['' @ key @ '']'' else rn),
                               args = a, kind = k, ctor = Some (Fun src ps), extension' = None,
                               profiles = None\<rparr>])), st)"
  using assms by (auto simp: reduceExport_def array_push_def)

lemma module_prepared:
  assumes "list_all (\<lambda>(key, v). notAnExtension v) (pre @ post)"
    and "map_of ps ''extension-kind'' = Some (Str k)"
    and "k = SemanticLint \<or> k = SyntacticLint"
    and "extensionArgs eo nm = Inr a"
  shows "preparedExtensionObject eo
           \<lparr>res_name = nm, res_result = Obj (pre @ [(key, Fun src ps)] @ post),
            res_error = Undefined\<rparr> st =
         (Inr (Some [\<lparr>name = (if key \<noteq> ''default'' then nm @ ''['' @ key @ '']'' else nm),
                       args = a, kind = k, ctor = Some (Fun src ps), extension' = None,
                       profiles = None\<rparr>]), st)"
proof -
  from assms(1) have pre: "list_all (\<lambda>(key, v). notAnExtension v) pre"
    and post: "list_all (\<lambda>(key, v). notAnExtension v) post"
    by simp_all
  show ?thesis
    using reduceExport_lint_class [OF assms(2,3,4), of "[]" src key st]
    by (simp add: preparedExtensionObject_def reduceProperties_append
          reduceProperties_notAnExtension [OF pre] reduceProperties_notAnExtension [OF post])
qed

lemma single_name_prepared:
  assumes "extensionNames extOptions = [nm]"
    and "extensionLoadResult host (currentDirectory host) nm createExtensionCache = (Inr res, s)"
    and "\<not> truthy (res_error res)"
    and "preparedExtensionObject extOptions res s = (Inr (Some [e]), s')"
  shows "getCompilerExtensions extOptions host createExtensionCache =
           (Inr [kind e \<mapsto> [e]], s'\<lparr>extensions := Some [kind e \<mapsto> [e]]\<rparr>)"
proof -
  have e: "extensions createExtensionCache = None"
    by (simp add: createExtensionCache_def)
  from assms have "collectCompilerExtensions extOptions host createExtensionCache =
      (Inr [kind e \<mapsto> [e]], s')"
    by (simp add: collectCompilerExtensions_def groupBy_def flatten_def)
  with e show ?thesis
    by (simp add: getCompilerExtensions_def)
qed

lemma lint_export_pass:
  assumes "loadExtension host = Some load"
    and "resolvedFile host nm = Some file"
    and "load file = Inr (Obj (pre @ [(key, Fun src ps)] @ post))"
    and "list_all (\<lambda>(key, v). notAnExtension v) (pre @ post)"
    and "map_of ps ''extension-kind'' = Some (Str k)"
    and "k = SemanticLint \<or> k = SyntacticLint"
    and "extensionNames extOptions = [nm]"
    and "extensionArgs extOptions nm = Inr a"
  shows "getCompilerExtensions extOptions host createExtensionCache =
           (Inr [k \<mapsto> [\<lparr>name = (if key \<noteq> ''default'' then nm @ ''['' @ key @ '']'' else nm),
                           args = a, kind = k,
                           ctor = Some (Fun src ps), extension' = None, profiles = None\<rparr>]],
            \<lparr>extensions = Some [k \<mapsto> [\<lparr>name = (if key \<noteq> ''default'' then nm @ ''['' @ key @ '']'' else nm),
                                   args = a, kind = k,
                                   ctor = Some (Fun src ps), extension' = None, profiles = None\<rparr>]],
             diagnostics = [], loadCalls = [file]\<rparr>)"
proof -
  let ?res = "\<lparr>res_name = nm, res_result = Obj (pre @ [(key, Fun src ps)] @ post),
               res_error = Undefined\<rparr>"
  let ?s = "\<lparr>extensions = None, diagnostics = [], loadCalls = [file]\<rparr>"
  have l: "extensionLoadResult host (currentDirectory host) nm createExtensionCache = (Inr ?res, ?s)"
    using load_returns [OF assms(1-3), of createExtensionCache]
    by (simp add: createExtensionCache_def)
  note p = module_prepared [OF assms(4,5,6,8), of key src ?s]
  from single_name_prepared [OF assms(7) l _ p] show ?thesis by simp
qed

lemma extensionLoadResults_contains:
  assumes "loadExtension host = Some load"
    and "resolvedFile host nm = Some file"
    and "load file = Inr v"
  shows "extensionLoadResults host (currentDirectory host) nms st = (Inr ress, st') \<Longrightarrow>
           nm \<in> set nms \<Longrightarrow>
           \<lparr>res_name = nm, res_result = v, res_error = Undefined\<rparr> \<in> set ress"
proof (induction nms arbitrary: st ress)
  case Nil
  then show ?case by simp
next
  case (Cons n nms)
  from Cons.prems(1) obtain r1 s1 rs where
    a: "extensionLoadResult host (currentDirectory host) n st = (Inr r1, s1)" and
    b: "extensionLoadResults host (currentDirectory host) nms s1 = (Inr rs, st')" and
    c: "ress = r1 # rs"
    by (rule extensionLoadResults_Cons)
  show ?case
  proof (cases "n = nm")
    case True
    with a load_returns [OF assms, of st] c show ?thesis by simp
  next
    case False
    with Cons.prems(2) have "nm \<in> set nms" by simp
    from Cons.IH [OF b this] c show ?thesis by simp
  qed
qed

lemma preparedExtensionObjects_contains:
  assumes "\<And>st. preparedExtensionObject eo res st = (Inr x, st)"
  shows "preparedExtensionObjects eo ress st = (Inr xs, st') \<Longrightarrow> res \<in> set ress \<Longrightarrow> x \<in> set xs"
proof (induction ress arbitrary: st xs)
  case Nil
  then show ?case by simp
next
  case (Cons r ress)
  obtain r1 s1 where a: "preparedExtensionObject eo r st = (r1, s1)" by fastforce
  obtain r2 s2 where b: "preparedExtensionObjects eo ress s1 = (r2, s2)" by fastforce
  from Cons.prems(1) a b obtain y ys where
    y: "r1 = Inr y" "r2 = Inr ys" "xs = y # ys" "st' = s2"
    by (auto split: sum.splits)
  show ?case
  proof (cases "r = res")
    case True
    with a assms [of st] y show ?thesis by simp
  next
    case False
    with Cons.prems(2) have "res \<in> set ress" by simp
    moreover from b y have "preparedExtensionObjects eo ress s1 = (Inr ys, st')" by simp
    ultimately have "x \<in> set ys" using Cons.IH by blast
    with y show ?thesis by simp
  qed
qed

lemma groupInto_keeps:
  "groupInto cl xs ret = Inr g \<Longrightarrow> ret k = Some es0 \<Longrightarrow> e \<in> set es0 \<Longrightarrow>
     \<exists>es. g k = Some es \<and> e \<in> set es"
proof (induction cl xs ret arbitrary: es0 rule: groupInto.induct)
  case (1 classifier ret)
  then show ?case by simp
next
  case (2 classifier xs ret)
  then show ?case by simp
next
  case (3 classifier elem xs ret)
  let ?ret = "ret(classifier elem \<mapsto>
      (case ret (classifier elem) of None \<Rightarrow> [] | Some g \<Rightarrow> g) @ [elem])"
  from "3.prems"(1) have g: "groupInto classifier xs ?ret = Inr g" by simp
  from "3.prems"(2,3) obtain es1 where "?ret k = Some es1" "e \<in> set es1"
    by (cases "k = classifier elem") auto
  from "3.IH" [OF g this] show ?case .
qed

lemma groupInto_contains:
  "groupInto cl xs ret = Inr g \<Longrightarrow> Some e \<in> set xs \<Longrightarrow>
     \<exists>es. g (cl e) = Some es \<and> e \<in> set es"
proof (induction cl xs ret rule: groupInto.induct)
  case (1 classifier ret)
  then show ?case by simp
next
  case (2 classifier xs ret)
  then show ?case by simp
next
  case (3 classifier elem xs ret)
  let ?ret = "ret(classifier elem \<mapsto>
      (case ret (classifier elem) of None \<Rightarrow> [] | Some g \<Rightarrow> g) @ [elem])"
  from "3.prems"(1) have g: "groupInto classifier xs ?ret = Inr g" by simp
  show ?case
  proof (cases "e = elem")
    case True
    have "?ret (classifier e) = Some ((case ret (classifier elem) of None \<Rightarrow> [] | Some g \<Rightarrow> g) @ [elem])"
      using True by simp
    moreover have "e \<in> set ((case ret (classifier elem) of None \<Rightarrow> [] | Some g \<Rightarrow> g) @ [elem])"
      using True by simp
    ultimately show ?thesis using groupInto_keeps [OF g] by blast
  next
    case False
    with "3.prems"(2) have "Some e \<in> set xs" by simp
    from "3.IH" [OF g this] show ?thesis .
  qed
qed

lemma module_in_pass:
  assumes "loadExtension host = Some load"
    and "resolvedFile host nm = Some file"
    and "load file = Inr exports"
    and "\<And>st. preparedExtensionObject eo
                 \<lparr>res_name = nm, res_result = exports, res_error = Undefined\<rparr> st = (Inr (Some es0), st)"
    and "e \<in> set es0"
    and "nm \<in> set (extensionNames eo)"
    and "getCompilerExtensions eo host createExtensionCache = (Inr groups, s)"
  shows "\<exists>es. groups (kind e) = Some es \<and> e \<in> set es"
proof -
  let ?res = "\<lparr>res_name = nm, res_result = exports, res_error = Undefined\<rparr>"
  from assms(7) obtain s0 where
    "collectCompilerExtensions eo host createExtensionCache = (Inr groups, s0)"
    by (auto simp: getCompilerExtensions_def createExtensionCache_def split: prod.splits sum.splits)
  then obtain ress s1 xs where
    a: "extensionLoadResults host (currentDirectory host) (extensionNames eo) createExtensionCache
          = (Inr ress, s1)" and
    b: "preparedExtensionObjects eo (filter (\<lambda>res. \<not> truthy (res_error res)) ress) s1 = (Inr xs, s0)" and
    g0: "groupBy (flatten xs) kind = Inr None \<and> groups = Map.empty
         \<or> groupBy (flatten xs) kind = Inr (Some groups)"
    by (rule collectCompilerExtensions_Inr)
  from extensionLoadResults_contains [OF assms(1-3) a assms(6)]
  have "?res \<in> set (filter (\<lambda>res. \<not> truthy (res_error res)) ress)" by simp
  from preparedExtensionObjects_contains [of eo ?res "Some es0", OF assms(4) b this]
  have "Some es0 \<in> set xs" .
  with assms(5) have m: "Some e \<in> set (flatten xs)"
    by (auto simp: flatten_Some)
  then have "flatten xs \<noteq> []" by auto
  with g0 have "groupInto kind (flatten xs) Map.empty = Inr groups"
    by (auto simp: groupBy_def split: sum.splits)
  from groupInto_contains [OF this m] show ?thesis .
qed

text \<open>
  C6, as stated, at two concrete inputs. The default export of the module \<^verbatim>\<open>foo\<close> is
  a class tagged \<^verbatim>\<open>semantic-lint\<close>. With a second tagged class exported as
  \<^verbatim>\<open>rule\<close> the module yields two descriptors, not exactly one. With the sibling
  export \<^verbatim>\<open>debug\<close> holding \<^verbatim>\<open>false\<close> it yields none: the pass throws.
\<close>

theorem default_export_counterexample:
  "fst (getCompilerExtensions (Names [''foo''])
          (hostLoading (\<lambda>file. Inr (Obj [(''default'', lintClass ''semantic-lint''),
                                           (''rule'', lintClass ''semantic-lint'')])))
          createExtensionCache) =
     Inr [''semantic-lint'' \<mapsto>
            [\<lparr>name = ''foo'', args = Undefined, kind = ''semantic-lint'',
              ctor = Some (lintClass ''semantic-lint''), extension' = None, profiles = None\<rparr>,
             \<lparr>name = ''foo[rule]'', args = Undefined, kind = ''semantic-lint'',
              ctor = Some (lintClass ''semantic-lint''), extension' = None, profiles = None\<rparr>]]
   \<and> fst (getCompilerExtensions (Names [''foo''])
          (hostLoading (\<lambda>file. Inr (Obj [(''default'', lintClass ''semantic-lint''),
                                           (''debug'', Bool False)])))
          createExtensionCache) = Inl TypeError"
  by (simp add: getCompilerExtensions_def collectCompilerExtensions_def createExtensionCache_def
        extensionNames_def extensionLoadResult_def hostLoading_def currentDirectory_def
        combinePaths_def preparedExtensionObject_def reduceExport_def lintClass_def
        array_push_def groupBy_def flatten_def SemanticLint_def SyntacticLint_def)

text \<open>
  C6, amended. Every descriptor of the grouping that a discovery pass returns was built
  for an export of a module loaded for a configured name \<open>nm\<close>: the export under some
  \<open>key\<close> is the descriptor's constructor (or its opaque value), carries the
  descriptor's kind as its tag, and the descriptor's name is \<open>nm[key]\<close> when the key
  is not \<^verbatim>\<open>default\<close> and \<open>nm\<close> alone when it is. Hence a module whose default export
  is a function tagged \<^verbatim>\<open>semantic-lint\<close>, and whose other exports are truthy values
  without a kind tag, yields exactly one descriptor, named after the module; every
  pass that loads the module for a configured name and returns has it in the group
  \<^verbatim>\<open>semantic-lint\<close>, and with the module's name as the only configured one the
  grouping is that one group with that one descriptor.
\<close>

theorem descriptor_names:
  "(getCompilerExtensions extOptions host createExtensionCache = (Inr groups, s)
      \<and> groups k = Some es \<and> e \<in> set es \<longrightarrow>
      (\<exists>nm\<in>set (extensionNames extOptions). \<exists>load' file' exports.
          loadExtension host = Some load' \<and> resolvedFile host nm = Some file'
          \<and> load' file' = Inr exports
          \<and> (\<exists>(key, v)\<in>set (js_props exports).
                js_get v ''extension-kind'' = Str (kind e)
                \<and> (ctor e = Some v \<or> extension' e = Some v)
                \<and> name e = (if key \<noteq> ''default'' then nm @ ''['' @ key @ '']'' else nm))))
   \<and> (loadExtension host = Some load \<and> resolvedFile host moduleName = Some file
      \<and> load file = Inr (Obj (pre @ [(''default'', Fun src ps)] @ post))
      \<and> list_all (\<lambda>(key, v). notAnExtension v) (pre @ post)
      \<and> map_of ps ''extension-kind'' = Some (Str ''semantic-lint'')
      \<and> extensionArgs extOptions moduleName = Inr a \<longrightarrow>
      preparedExtensionObject extOptions
          \<lparr>res_name = moduleName, res_result = Obj (pre @ [(''default'', Fun src ps)] @ post),
           res_error = Undefined\<rparr> st =
        (Inr (Some [\<lparr>name = moduleName, args = a, kind = ''semantic-lint'',
                      ctor = Some (Fun src ps), extension' = None, profiles = None\<rparr>]), st)
      \<and> (moduleName \<in> set (extensionNames extOptions)
          \<and> getCompilerExtensions extOptions host createExtensionCache = (Inr groups', s') \<longrightarrow>
          (\<exists>es'. groups' ''semantic-lint'' = Some es'
             \<and> \<lparr>name = moduleName, args = a, kind = ''semantic-lint'',
                 ctor = Some (Fun src ps), extension' = None, profiles = None\<rparr> \<in> set es'))
      \<and> (extensionNames extOptions = [moduleName] \<longrightarrow>
          fst (getCompilerExtensions extOptions host createExtensionCache) =
            Inr [''semantic-lint'' \<mapsto>
                   [\<lparr>name = moduleName, args = a, kind = ''semantic-lint'',
                     ctor = Some (Fun src ps), extension' = None, profiles = None\<rparr>]]))"
proof (intro conjI impI)
  assume g: "getCompilerExtensions extOptions host createExtensionCache = (Inr groups, s)
      \<and> groups k = Some es \<and> e \<in> set es"
  then have g1: "getCompilerExtensions extOptions host createExtensionCache = (Inr groups, s)"
    and g2: "groups k = Some es" and g3: "e \<in> set es"
    by simp_all
  from pass_descriptors [OF g1 g2 g3] obtain nm load' file' exports key v where
    d: "nm \<in> set (extensionNames extOptions)" "loadExtension host = Some load'"
       "resolvedFile host nm = Some file'" "load' file' = Inr exports"
       "(key, v) \<in> set (js_props exports)" "isDescriptorOf extOptions nm key v e"
    by auto
  from d(6) have n: "js_get v ''extension-kind'' = Str (kind e)
      \<and> (ctor e = Some v \<or> extension' e = Some v)
      \<and> name e = (if key \<noteq> ''default'' then nm @ ''['' @ key @ '']'' else nm)"
    by (simp add: isDescriptorOf_def)
  with d(5) have "\<exists>(key, v)\<in>set (js_props exports).
                js_get v ''extension-kind'' = Str (kind e)
                \<and> (ctor e = Some v \<or> extension' e = Some v)
                \<and> name e = (if key \<noteq> ''default'' then nm @ ''['' @ key @ '']'' else nm)"
    by (intro bexI [of _ "(key, v)"]) simp_all
  with d(1-4) show "\<exists>nm\<in>set (extensionNames extOptions). \<exists>load' file' exports.
          loadExtension host = Some load' \<and> resolvedFile host nm = Some file'
          \<and> load' file' = Inr exports
          \<and> (\<exists>(key, v)\<in>set (js_props exports).
                js_get v ''extension-kind'' = Str (kind e)
                \<and> (ctor e = Some v \<or> extension' e = Some v)
                \<and> name e = (if key \<noteq> ''default'' then nm @ ''['' @ key @ '']'' else nm))"
    by blast
next
  let ?e = "\<lparr>name = moduleName, args = a, kind = ''semantic-lint'',
             ctor = Some (Fun src ps), extension' = None, profiles = None\<rparr>"
  let ?exports = "Obj (pre @ [(''default'', Fun src ps)] @ post)"
  assume h: "loadExtension host = Some load \<and> resolvedFile host moduleName = Some file
      \<and> load file = Inr ?exports
      \<and> list_all (\<lambda>(key, v). notAnExtension v) (pre @ post)
      \<and> map_of ps ''extension-kind'' = Some (Str ''semantic-lint'')
      \<and> extensionArgs extOptions moduleName = Inr a"
  then have h1: "loadExtension host = Some load" and h2: "resolvedFile host moduleName = Some file"
    and h3: "load file = Inr ?exports"
    and h4: "list_all (\<lambda>(key, v). notAnExtension v) (pre @ post)"
    and h5: "map_of ps ''extension-kind'' = Some (Str ''semantic-lint'')"
    and h7: "extensionArgs extOptions moduleName = Inr a"
    by blast+
  have k: "''semantic-lint'' = SemanticLint \<or> ''semantic-lint'' = SyntacticLint"
    by (simp add: SemanticLint_def)
  have p: "\<And>st. preparedExtensionObject extOptions
          \<lparr>res_name = moduleName, res_result = ?exports, res_error = Undefined\<rparr> st =
        (Inr (Some [?e]), st)"
    using module_prepared [OF h4 h5 k h7, of "''default''" src] by simp
  show "preparedExtensionObject extOptions
          \<lparr>res_name = moduleName, res_result = ?exports, res_error = Undefined\<rparr> st =
        (Inr (Some [?e]), st)"
    by (rule p)
  {
    assume m: "moduleName \<in> set (extensionNames extOptions)
          \<and> getCompilerExtensions extOptions host createExtensionCache = (Inr groups', s')"
    then have m1: "moduleName \<in> set (extensionNames extOptions)"
      and m2: "getCompilerExtensions extOptions host createExtensionCache = (Inr groups', s')"
      by simp_all
    have "?e \<in> set [?e]" by simp
    from module_in_pass [OF h1 h2 h3 p this m1 m2]
    show "\<exists>es'. groups' ''semantic-lint'' = Some es' \<and> ?e \<in> set es'"
      by simp
  }
  {
    assume h6: "extensionNames extOptions = [moduleName]"
    show "fst (getCompilerExtensions extOptions host createExtensionCache) =
            Inr [''semantic-lint'' \<mapsto> [?e]]"
      using lint_export_pass [OF h1 h2 h3 h4 h5 k h6 h7] by simp
  }
qed

lemma example_two_exports_run:
  "getCompilerExtensions (Names [''foo''])
       (hostLoading (\<lambda>file. Inr (Obj [(''default'', lintClass ''semantic-lint''),
                                        (''rule'', lintClass ''syntactic-lint'')])))
       createExtensionCache =
     (Inr [''semantic-lint'' \<mapsto>
             [\<lparr>name = ''foo'', args = Undefined, kind = ''semantic-lint'',
               ctor = Some (lintClass ''semantic-lint''), extension' = None, profiles = None\<rparr>],
           ''syntactic-lint'' \<mapsto>
             [\<lparr>name = ''foo[rule]'', args = Undefined, kind = ''syntactic-lint'',
               ctor = Some (lintClass ''syntactic-lint''), extension' = None, profiles = None\<rparr>]],
      \<lparr>extensions = Some [''semantic-lint'' \<mapsto>
             [\<lparr>name = ''foo'', args = Undefined, kind = ''semantic-lint'',
               ctor = Some (lintClass ''semantic-lint''), extension' = None, profiles = None\<rparr>],
           ''syntactic-lint'' \<mapsto>
             [\<lparr>name = ''foo[rule]'', args = Undefined, kind = ''syntactic-lint'',
               ctor = Some (lintClass ''syntactic-lint''), extension' = None, profiles = None\<rparr>]],
       diagnostics = [], loadCalls = [''/project/node_modules/foo/index.js'']\<rparr>)"
  by (simp add: getCompilerExtensions_def collectCompilerExtensions_def createExtensionCache_def
        extensionNames_def extensionLoadResult_def hostLoading_def currentDirectory_def
        combinePaths_def preparedExtensionObject_def reduceExport_def lintClass_def
        array_push_def groupBy_def flatten_def SemanticLint_def SyntacticLint_def)

lemma example_two_names_run:
  "getCompilerExtensions (Names [''bar'', ''foo''])
       (hostLoading (\<lambda>file. Inr (Obj [(''__esModule'', Bool True),
                                        (''default'', lintClass ''semantic-lint'')])))
       createExtensionCache =
     (Inr [''semantic-lint'' \<mapsto>
             [\<lparr>name = ''bar'', args = Undefined, kind = ''semantic-lint'',
               ctor = Some (lintClass ''semantic-lint''), extension' = None, profiles = None\<rparr>,
              \<lparr>name = ''foo'', args = Undefined, kind = ''semantic-lint'',
               ctor = Some (lintClass ''semantic-lint''), extension' = None, profiles = None\<rparr>]],
      \<lparr>extensions = Some [''semantic-lint'' \<mapsto>
             [\<lparr>name = ''bar'', args = Undefined, kind = ''semantic-lint'',
               ctor = Some (lintClass ''semantic-lint''), extension' = None, profiles = None\<rparr>,
              \<lparr>name = ''foo'', args = Undefined, kind = ''semantic-lint'',
               ctor = Some (lintClass ''semantic-lint''), extension' = None, profiles = None\<rparr>]],
       diagnostics = [],
       loadCalls = [''/project/node_modules/bar/index.js'', ''/project/node_modules/foo/index.js'']\<rparr>)"
  by (simp add: getCompilerExtensions_def collectCompilerExtensions_def createExtensionCache_def
        extensionNames_def extensionLoadResult_def hostLoading_def currentDirectory_def
        combinePaths_def preparedExtensionObject_def reduceExport_def lintClass_def
        array_push_def groupBy_def flatten_def SemanticLint_def SyntacticLint_def)

theorem descriptor_names_witness:
  "fst (getCompilerExtensions (Names [''foo''])
       (hostLoading (\<lambda>file. Inr (Obj [(''default'', lintClass ''semantic-lint''),
                                        (''rule'', lintClass ''syntactic-lint'')])))
       createExtensionCache) =
     Inr [''semantic-lint'' \<mapsto>
             [\<lparr>name = ''foo'', args = Undefined, kind = ''semantic-lint'',
               ctor = Some (lintClass ''semantic-lint''), extension' = None, profiles = None\<rparr>],
           ''syntactic-lint'' \<mapsto>
             [\<lparr>name = ''foo[rule]'', args = Undefined, kind = ''syntactic-lint'',
               ctor = Some (lintClass ''syntactic-lint''), extension' = None, profiles = None\<rparr>]]
   \<and> (\<exists>(key, v)\<in>set [(''default'', lintClass ''semantic-lint''),
                       (''rule'', lintClass ''syntactic-lint'')].
         js_get v ''extension-kind'' = Str ''syntactic-lint''
         \<and> Some (lintClass ''syntactic-lint'') = Some v
         \<and> ''foo[rule]'' = (if key \<noteq> ''default'' then ''foo'' @ ''['' @ key @ '']'' else ''foo''))
   \<and> preparedExtensionObject (Names [''bar'', ''foo''])
        \<lparr>res_name = ''foo'',
         res_result = Obj [(''__esModule'', Bool True), (''default'', lintClass ''semantic-lint'')],
         res_error = Undefined\<rparr> createExtensionCache =
       (Inr (Some [\<lparr>name = ''foo'', args = Undefined, kind = ''semantic-lint'',
                     ctor = Some (lintClass ''semantic-lint''), extension' = None,
                     profiles = None\<rparr>]), createExtensionCache)
   \<and> (\<exists>es'. the (extensions (snd (getCompilerExtensions (Names [''bar'', ''foo''])
                 (hostLoading (\<lambda>file. Inr (Obj [(''__esModule'', Bool True),
                                                  (''default'', lintClass ''semantic-lint'')])))
                 createExtensionCache))) ''semantic-lint'' = Some es'
          \<and> \<lparr>name = ''foo'', args = Undefined, kind = ''semantic-lint'',
              ctor = Some (lintClass ''semantic-lint''), extension' = None, profiles = None\<rparr>
             \<in> set es')
   \<and> fst (getCompilerExtensions (Names [''foo''])
       (hostLoading (\<lambda>file. Inr (Obj [(''__esModule'', Bool True),
                                        (''default'', lintClass ''semantic-lint'')])))
       createExtensionCache) =
      Inr [''semantic-lint'' \<mapsto>
               [\<lparr>name = ''foo'', args = Undefined, kind = ''semantic-lint'',
                 ctor = Some (lintClass ''semantic-lint''), extension' = None, profiles = None\<rparr>]]"
proof -
  let ?file = "''/project/node_modules/foo/index.js''"
  let ?ea = "\<lparr>name = ''foo'', args = Undefined, kind = ''semantic-lint'',
              ctor = Some (lintClass ''semantic-lint''), extension' = None, profiles = None\<rparr>"
  let ?e = "\<lparr>name = ''foo[rule]'', args = Undefined, kind = ''syntactic-lint'',
              ctor = Some (lintClass ''syntactic-lint''), extension' = None, profiles = None\<rparr>"
  let ?g = "[''semantic-lint'' \<mapsto> [?ea], ''syntactic-lint'' \<mapsto> [?e]]"
  let ?s = "\<lparr>extensions = Some ?g, diagnostics = [], loadCalls = [?file]\<rparr>"
  let ?props1 = "[(''default'', lintClass ''semantic-lint''), (''rule'', lintClass ''syntactic-lint'')]"
  let ?load1 = "\<lambda>file :: string. Inr (Obj ?props1) :: jsval + jsval"
  let ?h1 = "hostLoading ?load1"
  have a: "getCompilerExtensions (Names [''foo'']) ?h1 createExtensionCache = (Inr ?g, ?s)
             \<and> ?g ''syntactic-lint'' = Some [?e] \<and> ?e \<in> set [?e]"
    by (simp add: example_two_exports_run)
  have l1: "loadExtension ?h1 = Some ?load1" by (simp add: hostLoading_def)
  note c = descriptor_names [of "Names [''foo'']" ?h1 ?g ?s "''syntactic-lint''" "[?e]" ?e,
      THEN conjunct1, THEN mp, OF a]
  from c obtain nm load' file' exports where
    x: "nm \<in> set (extensionNames (Names [''foo'']))" "loadExtension ?h1 = Some load'"
       "load' file' = Inr exports"
       "\<exists>(key, v)\<in>set (js_props exports).
          js_get v ''extension-kind'' = Str (kind ?e)
          \<and> (ctor ?e = Some v \<or> extension' ?e = Some v)
          \<and> name ?e = (if key \<noteq> ''default'' then nm @ ''['' @ key @ '']'' else nm)"
    by blast
  from x(1) have nm: "nm = ''foo''" by (simp add: extensionNames_def)
  from x(2) l1 have "load' = ?load1" by simp
  with x(3) have "exports = Obj ?props1" by auto
  with x(4) nm have 1: "\<exists>(key, v)\<in>set ?props1.
         js_get v ''extension-kind'' = Str ''syntactic-lint''
         \<and> Some (lintClass ''syntactic-lint'') = Some v
         \<and> ''foo[rule]'' = (if key \<noteq> ''default'' then ''foo'' @ ''['' @ key @ '']'' else ''foo'')"
    by simp
  let ?d = "\<lparr>name = ''foo'', args = Undefined, kind = ''semantic-lint'',
              ctor = Some (lintClass ''semantic-lint''), extension' = None, profiles = None\<rparr>"
  let ?load = "\<lambda>file :: string. Inr (Obj [(''__esModule'', Bool True),
                                        (''default'', lintClass ''semantic-lint'')]) :: jsval + jsval"
  let ?h2 = "hostLoading ?load"
  have b: "\<And>eo. loadExtension ?h2 = Some ?load
      \<and> resolvedFile ?h2 ''foo'' = Some ?file
      \<and> ?load ?file =
          Inr (Obj ([(''__esModule'', Bool True)]
                 @ [(''default'', Fun ''class Walker { visit() {} }''
                                     [(''extension-kind'', Str ''semantic-lint'')])] @ []))
      \<and> list_all (\<lambda>(key, v). notAnExtension v) ([(''__esModule'', Bool True)] @ [])
      \<and> map_of [(''extension-kind'', Str ''semantic-lint'')] ''extension-kind''
          = Some (Str ''semantic-lint'')"
    by (simp add: hostLoading_def resolvedFile_def lintClass_def notAnExtension_def)
  have n2: "extensionArgs (Names [''bar'', ''foo'']) ''foo'' = Inr Undefined
      \<and> ''foo'' \<in> set (extensionNames (Names [''bar'', ''foo'']))"
    by (simp add: extensionNames_def)
  note r2 = example_two_names_run
  note t2 = descriptor_names [of "Names [''bar'', ''foo'']" ?h2 _ _ _ _ _ ?load "''foo''" ?file
       "[(''__esModule'', Bool True)]" "''class Walker { visit() {} }''"
       "[(''extension-kind'', Str ''semantic-lint'')]" "[]" Undefined createExtensionCache
       "[''semantic-lint'' \<mapsto> [?d\<lparr>name := ''bar''\<rparr>, ?d]]"
       "snd (getCompilerExtensions (Names [''bar'', ''foo'']) ?h2 createExtensionCache)"]
  from t2 b n2 have 2: "preparedExtensionObject (Names [''bar'', ''foo''])
        \<lparr>res_name = ''foo'',
         res_result = Obj [(''__esModule'', Bool True), (''default'', lintClass ''semantic-lint'')],
         res_error = Undefined\<rparr> createExtensionCache =
       (Inr (Some [?d]), createExtensionCache)"
    by (simp add: lintClass_def)
  from t2 b n2 r2 have 3: "\<exists>es'. the (extensions (snd (getCompilerExtensions (Names [''bar'', ''foo''])
                 ?h2 createExtensionCache))) ''semantic-lint'' = Some es' \<and> ?d \<in> set es'"
    by (simp add: lintClass_def)
  have n4: "extensionArgs (Names [''foo'']) ''foo'' = Inr Undefined
      \<and> extensionNames (Names [''foo'']) = [''foo'']"
    by (simp add: extensionNames_def)
  from descriptor_names [of "Names [''foo'']" ?h2 _ _ _ _ _ ?load "''foo''" ?file
       "[(''__esModule'', Bool True)]" "''class Walker { visit() {} }''"
       "[(''extension-kind'', Str ''semantic-lint'')]" "[]" Undefined] b n4
  have 4: "fst (getCompilerExtensions (Names [''foo'']) ?h2 createExtensionCache) =
      Inr [''semantic-lint'' \<mapsto> [?d]]"
    by (simp add: lintClass_def)
  from a 1 2 3 4 show ?thesis by simp
qed

text \<open>
  C7. With the extensions configured as a mapping, every descriptor built for the
  module of a configured name has as its arguments the mapping's value for that name,
  in the module's own list and in the grouping that the pass returns; with the
  extensions configured as a sequence of names, the arguments of every descriptor are
  \<^verbatim>\<open>undefined\<close>. And such descriptors are produced: a module that exports a
  function tagged with a lint kind, beside exports that are no extensions, gives
  the descriptor with these arguments, which every pass that loads the module for a
  configured name and returns has in the group of its kind.
\<close>

theorem descriptor_args:
  "(preparedExtensionObject (Mapping m) res st = (Inr (Some es), st') \<and> e \<in> set es
      \<and> res_name res \<in> set (getKeys (Mapping m)) \<longrightarrow>
      map_of m (res_name res) = Some (args e))
   \<and> (getCompilerExtensions (Mapping m) host createExtensionCache = (Inr groups, s)
      \<and> groups k = Some es \<and> e \<in> set es \<longrightarrow>
      (\<exists>nm\<in>set (getKeys (Mapping m)). \<exists>key.
          name e = (if key \<noteq> ''default'' then nm @ ''['' @ key @ '']'' else nm)
          \<and> map_of m nm = Some (args e)))
   \<and> (preparedExtensionObject (Names ns) res st = (Inr (Some es), st') \<and> e \<in> set es \<longrightarrow>
      args e = Undefined)
   \<and> (getCompilerExtensions (Names ns) host createExtensionCache = (Inr groups, s)
      \<and> groups k = Some es \<and> e \<in> set es \<longrightarrow>
      args e = Undefined)
   \<and> (list_all (\<lambda>(key, v). notAnExtension v) (pre @ post)
      \<and> map_of ps ''extension-kind'' = Some (Str tag)
      \<and> (tag = ''semantic-lint'' \<or> tag = ''syntactic-lint'') \<longrightarrow>
      (map_of m nm = Some a \<longrightarrow>
         preparedExtensionObject (Mapping m)
            \<lparr>res_name = nm, res_result = Obj (pre @ [(key, Fun src ps)] @ post),
             res_error = Undefined\<rparr> st =
           (Inr (Some [\<lparr>name = (if key \<noteq> ''default'' then nm @ ''['' @ key @ '']'' else nm),
                         args = a, kind = tag, ctor = Some (Fun src ps), extension' = None,
                         profiles = None\<rparr>]), st))
      \<and> preparedExtensionObject (Names ns)
            \<lparr>res_name = nm, res_result = Obj (pre @ [(key, Fun src ps)] @ post),
             res_error = Undefined\<rparr> st =
           (Inr (Some [\<lparr>name = (if key \<noteq> ''default'' then nm @ ''['' @ key @ '']'' else nm),
                         args = Undefined, kind = tag, ctor = Some (Fun src ps), extension' = None,
                         profiles = None\<rparr>]), st)
      \<and> (loadExtension host = Some load \<and> resolvedFile host nm = Some file
          \<and> load file = Inr (Obj (pre @ [(key, Fun src ps)] @ post)) \<longrightarrow>
          (map_of m nm = Some a
             \<and> getCompilerExtensions (Mapping m) host createExtensionCache = (Inr groups', s') \<longrightarrow>
             (\<exists>es'. groups' tag = Some es'
                \<and> \<lparr>name = (if key \<noteq> ''default'' then nm @ ''['' @ key @ '']'' else nm),
                    args = a, kind = tag, ctor = Some (Fun src ps), extension' = None,
                    profiles = None\<rparr> \<in> set es'))
          \<and> (nm \<in> set ns
             \<and> getCompilerExtensions (Names ns) host createExtensionCache = (Inr groups', s') \<longrightarrow>
             (\<exists>es'. groups' tag = Some es'
                \<and> \<lparr>name = (if key \<noteq> ''default'' then nm @ ''['' @ key @ '']'' else nm),
                    args = Undefined, kind = tag, ctor = Some (Fun src ps), extension' = None,
                    profiles = None\<rparr> \<in> set es'))))"
proof (intro conjI impI)
  assume a: "preparedExtensionObject (Mapping m) res st = (Inr (Some es), st') \<and> e \<in> set es
      \<and> res_name res \<in> set (getKeys (Mapping m))"
  then have a1: "preparedExtensionObject (Mapping m) res st = (Inr (Some es), st')"
    and a2: "e \<in> set es" and a3: "res_name res \<in> fst ` set m"
    by simp_all
  from preparedExtensionObject_descriptors [OF a1 a2] obtain key v where
    "isDescriptorOf (Mapping m) (res_name res) key v e"
    by auto
  then have "args e = (case map_of m (res_name res) of None \<Rightarrow> inheritedProperty (res_name res)
                        | Some v \<Rightarrow> v)"
    by (simp add: isDescriptorOf_def)
  moreover from a3 obtain x where "map_of m (res_name res) = Some x"
    by (auto dest: weak_map_of_SomeI)
  ultimately show "map_of m (res_name res) = Some (args e)" by simp
next
  assume b: "getCompilerExtensions (Mapping m) host createExtensionCache = (Inr groups, s)
      \<and> groups k = Some es \<and> e \<in> set es"
  then have b1: "getCompilerExtensions (Mapping m) host createExtensionCache = (Inr groups, s)"
    and b2: "groups k = Some es" and b3: "e \<in> set es"
    by simp_all
  from pass_descriptors [OF b1 b2 b3] obtain nm key v where
    d: "nm \<in> set (extensionNames (Mapping m))" "isDescriptorOf (Mapping m) nm key v e"
    by auto
  from d(1) have n: "nm \<in> fst ` set m" by (simp add: extensionNames_def)
  then obtain x where x: "map_of m nm = Some x"
    by (auto dest: weak_map_of_SomeI)
  with d(2) have "name e = (if key \<noteq> ''default'' then nm @ ''['' @ key @ '']'' else nm)
          \<and> map_of m nm = Some (args e)"
    by (simp add: isDescriptorOf_def)
  with n show "\<exists>nm\<in>set (getKeys (Mapping m)). \<exists>key.
          name e = (if key \<noteq> ''default'' then nm @ ''['' @ key @ '']'' else nm)
          \<and> map_of m nm = Some (args e)"
    by auto
next
  assume c: "preparedExtensionObject (Names ns) res st = (Inr (Some es), st') \<and> e \<in> set es"
  then have c1: "preparedExtensionObject (Names ns) res st = (Inr (Some es), st')"
    and c2: "e \<in> set es"
    by simp_all
  from preparedExtensionObject_descriptors [OF c1 c2] show "args e = Undefined"
    by (auto simp: isDescriptorOf_def)
next
  assume d: "getCompilerExtensions (Names ns) host createExtensionCache = (Inr groups, s)
      \<and> groups k = Some es \<and> e \<in> set es"
  then have d1: "getCompilerExtensions (Names ns) host createExtensionCache = (Inr groups, s)"
    and d2: "groups k = Some es" and d3: "e \<in> set es"
    by simp_all
  from pass_descriptors [OF d1 d2 d3] show "args e = Undefined"
    by (auto simp: isDescriptorOf_def)
next
  let ?exports = "Obj (pre @ [(key, Fun src ps)] @ post)"
  let ?d = "\<lambda>a. \<lparr>name = (if key \<noteq> ''default'' then nm @ ''['' @ key @ '']'' else nm),
                 args = a, kind = tag, ctor = Some (Fun src ps), extension' = None,
                 profiles = None\<rparr>"
  assume h: "list_all (\<lambda>(key, v). notAnExtension v) (pre @ post)
      \<and> map_of ps ''extension-kind'' = Some (Str tag)
      \<and> (tag = ''semantic-lint'' \<or> tag = ''syntactic-lint'')"
  then have h1: "list_all (\<lambda>(key, v). notAnExtension v) (pre @ post)"
    and h2: "map_of ps ''extension-kind'' = Some (Str tag)"
    and h3: "tag = SemanticLint \<or> tag = SyntacticLint"
    by (simp_all add: SemanticLint_def SyntacticLint_def)
  have pn: "\<And>st. preparedExtensionObject (Names ns)
            \<lparr>res_name = nm, res_result = ?exports, res_error = Undefined\<rparr> st =
           (Inr (Some [?d Undefined]), st)"
    using module_prepared [OF h1 h2 h3, of "Names ns" nm Undefined key src] by simp
  have pm: "\<And>st. preparedExtensionObject (Mapping m)
            \<lparr>res_name = nm, res_result = ?exports, res_error = Undefined\<rparr> st =
           (Inr (Some [?d a]), st)" if "map_of m nm = Some a"
    using module_prepared [OF h1 h2 h3, of "Mapping m" nm a key src] that by simp
  {
    assume "map_of m nm = Some a"
    then show "preparedExtensionObject (Mapping m)
            \<lparr>res_name = nm, res_result = ?exports, res_error = Undefined\<rparr> st =
           (Inr (Some [?d a]), st)"
      by (rule pm)
  }
  show "preparedExtensionObject (Names ns)
            \<lparr>res_name = nm, res_result = ?exports, res_error = Undefined\<rparr> st =
           (Inr (Some [?d Undefined]), st)"
    by (rule pn)
  assume l: "loadExtension host = Some load \<and> resolvedFile host nm = Some file
          \<and> load file = Inr ?exports"
  then have l1: "loadExtension host = Some load" and l2: "resolvedFile host nm = Some file"
    and l3: "load file = Inr ?exports"
    by simp_all
  {
    assume g: "map_of m nm = Some a
             \<and> getCompilerExtensions (Mapping m) host createExtensionCache = (Inr groups', s')"
    then have g1: "map_of m nm = Some a"
      and g2: "getCompilerExtensions (Mapping m) host createExtensionCache = (Inr groups', s')"
      by simp_all
    from g1 have n: "nm \<in> set (extensionNames (Mapping m))"
      by (auto simp: extensionNames_def dest: map_of_SomeD intro: rev_image_eqI)
    have i: "?d a \<in> set [?d a]" by simp
    from module_in_pass [OF l1 l2 l3 pm [OF g1] i n g2]
    show "\<exists>es'. groups' tag = Some es' \<and> ?d a \<in> set es'"
      by simp
  }
  {
    assume g: "nm \<in> set ns
             \<and> getCompilerExtensions (Names ns) host createExtensionCache = (Inr groups', s')"
    then have n: "nm \<in> set (extensionNames (Names ns))"
      and g2: "getCompilerExtensions (Names ns) host createExtensionCache = (Inr groups', s')"
      by (simp_all add: extensionNames_def)
    have i: "?d Undefined \<in> set [?d Undefined]" by simp
    from module_in_pass [OF l1 l2 l3 pn i n g2]
    show "\<exists>es'. groups' tag = Some es' \<and> ?d Undefined \<in> set es'"
      by simp
  }
qed

lemma example_pass:
  assumes "extensionNames eo = [''foo'']" and "extensionArgs eo ''foo'' = Inr a"
  shows "getCompilerExtensions eo
       (hostLoading (\<lambda>file. Inr (Obj [(''default'', lintClass ''semantic-lint'')])))
       createExtensionCache =
     (Inr [''semantic-lint'' \<mapsto>
             [\<lparr>name = ''foo'', args = a, kind = ''semantic-lint'',
               ctor = Some (lintClass ''semantic-lint''), extension' = None, profiles = None\<rparr>]],
      \<lparr>extensions = Some [''semantic-lint'' \<mapsto>
             [\<lparr>name = ''foo'', args = a, kind = ''semantic-lint'',
               ctor = Some (lintClass ''semantic-lint''), extension' = None, profiles = None\<rparr>]],
       diagnostics = [], loadCalls = [''/project/node_modules/foo/index.js'']\<rparr>)"
proof -
  let ?load = "\<lambda>file :: string. Inr (Obj [(''default'', lintClass ''semantic-lint'')]) :: jsval + jsval"
  have 1: "loadExtension (hostLoading ?load) = Some ?load"
    by (simp add: hostLoading_def)
  have 2: "resolvedFile (hostLoading ?load) ''foo'' = Some ''/project/node_modules/foo/index.js''"
    by (simp add: resolvedFile_def hostLoading_def)
  have 3: "?load ''/project/node_modules/foo/index.js'' =
      Inr (Obj ([] @ [(''default'', Fun ''class Walker { visit() {} }''
                                     [(''extension-kind'', Str ''semantic-lint'')])] @ []))"
    by (simp add: lintClass_def)
  have 4: "list_all (\<lambda>(key, v). notAnExtension v) ([] @ [])" by simp
  have 5: "map_of [(''extension-kind'', Str ''semantic-lint'')] ''extension-kind''
             = Some (Str ''semantic-lint'')"
    by simp
  have 6: "''semantic-lint'' = SemanticLint \<or> ''semantic-lint'' = SyntacticLint"
    by (simp add: SemanticLint_def)
  from lint_export_pass [OF 1 2 3 4 5 6 assms] show ?thesis
    by (simp add: lintClass_def)
qed

theorem descriptor_args_witness:
  "preparedExtensionObject (Mapping [(''foo'', Obj [(''x'', Num 1)])])
      \<lparr>res_name = ''foo'', res_result = Obj [(''default'', lintClass ''semantic-lint'')],
       res_error = Undefined\<rparr> createExtensionCache =
     (Inr (Some [\<lparr>name = ''foo'', args = Obj [(''x'', Num 1)], kind = ''semantic-lint'',
                   ctor = Some (lintClass ''semantic-lint''), extension' = None,
                   profiles = None\<rparr>]), createExtensionCache)
   \<and> fst (getCompilerExtensions (Mapping [(''foo'', Obj [(''x'', Num 1)])])
       (hostLoading (\<lambda>file. Inr (Obj [(''default'', lintClass ''semantic-lint'')])))
       createExtensionCache) =
     Inr [''semantic-lint'' \<mapsto>
             [\<lparr>name = ''foo'', args = Obj [(''x'', Num 1)], kind = ''semantic-lint'',
               ctor = Some (lintClass ''semantic-lint''), extension' = None, profiles = None\<rparr>]]
   \<and> map_of [(''foo'', Obj [(''x'', Num 1)])] ''foo''
        = Some (args \<lparr>name = ''foo'', args = Obj [(''x'', Num 1)], kind = ''semantic-lint'',
               ctor = Some (lintClass ''semantic-lint''), extension' = None, profiles = None\<rparr>)
   \<and> preparedExtensionObject (Names [''foo''])
      \<lparr>res_name = ''foo'', res_result = Obj [(''default'', lintClass ''semantic-lint'')],
       res_error = Undefined\<rparr> createExtensionCache =
     (Inr (Some [\<lparr>name = ''foo'', args = Undefined, kind = ''semantic-lint'',
                   ctor = Some (lintClass ''semantic-lint''), extension' = None,
                   profiles = None\<rparr>]), createExtensionCache)
   \<and> fst (getCompilerExtensions (Names [''foo''])
       (hostLoading (\<lambda>file. Inr (Obj [(''default'', lintClass ''semantic-lint'')])))
       createExtensionCache) =
     Inr [''semantic-lint'' \<mapsto>
             [\<lparr>name = ''foo'', args = Undefined, kind = ''semantic-lint'',
               ctor = Some (lintClass ''semantic-lint''), extension' = None, profiles = None\<rparr>]]"
proof -
  let ?file = "''/project/node_modules/foo/index.js''"
  let ?m = "[(''foo'', Obj [(''x'', Num 1)])]"
  let ?load = "\<lambda>file :: string. Inr (Obj [(''default'', lintClass ''semantic-lint'')]) :: jsval + jsval"
  let ?host = "hostLoading ?load"
  let ?res = "\<lparr>res_name = ''foo'', res_result = Obj [(''default'', lintClass ''semantic-lint'')],
       res_error = Undefined\<rparr>"
  let ?d = "\<lambda>a. \<lparr>name = ''foo'', args = a, kind = ''semantic-lint'',
               ctor = Some (lintClass ''semantic-lint''), extension' = None, profiles = None\<rparr>"
  let ?s = "\<lambda>a. \<lparr>extensions = Some [''semantic-lint'' \<mapsto> [?d a]],
       diagnostics = [], loadCalls = [?file]\<rparr>"
  let ?src = "''class Walker { visit() {} }''"
  let ?ps = "[(''extension-kind'', Str ''semantic-lint'')]"
  have g1: "getCompilerExtensions (Mapping ?m) ?host createExtensionCache =
              (Inr [''semantic-lint'' \<mapsto> [?d (Obj [(''x'', Num 1)])]], ?s (Obj [(''x'', Num 1)]))"
    by (rule example_pass) (simp_all add: extensionNames_def)
  have g2: "getCompilerExtensions (Names [''foo'']) ?host createExtensionCache =
              (Inr [''semantic-lint'' \<mapsto> [?d Undefined]], ?s Undefined)"
    by (rule example_pass) (simp_all add: extensionNames_def)
  have h: "list_all (\<lambda>(key, v). notAnExtension v) ([] @ [])
      \<and> map_of ?ps ''extension-kind'' = Some (Str ''semantic-lint'')
      \<and> (''semantic-lint'' = ''semantic-lint'' \<or> ''semantic-lint'' = ''syntactic-lint'')"
    by simp
  have l: "loadExtension ?host = Some ?load \<and> resolvedFile ?host ''foo'' = Some ?file
      \<and> ?load ?file = Inr (Obj ([] @ [(''default'', Fun ?src ?ps)] @ []))"
    by (simp add: hostLoading_def resolvedFile_def lintClass_def)
  have mm: "map_of ?m ''foo'' = Some (Obj [(''x'', Num 1)])" by simp
  note t = descriptor_args
    [of ?m ?res createExtensionCache "[?d (Obj [(''x'', Num 1)])]" createExtensionCache
        "?d (Obj [(''x'', Num 1)])" ?host "[''semantic-lint'' \<mapsto> [?d (Obj [(''x'', Num 1)])]]"
        "?s (Obj [(''x'', Num 1)])" "''semantic-lint''" "[''foo'']" "[]" "[]" ?ps
        "''semantic-lint''" "''foo''" "Obj [(''x'', Num 1)]" "''default''" ?src
        ?load ?file "[''semantic-lint'' \<mapsto> [?d (Obj [(''x'', Num 1)])]]"
        "?s (Obj [(''x'', Num 1)])"]
  from t h mm have p1: "preparedExtensionObject (Mapping ?m) ?res createExtensionCache =
              (Inr (Some [?d (Obj [(''x'', Num 1)])]), createExtensionCache)"
    by (simp add: lintClass_def)
  from t h have p2: "preparedExtensionObject (Names [''foo'']) ?res createExtensionCache =
              (Inr (Some [?d Undefined]), createExtensionCache)"
    by (simp add: lintClass_def)
  from t p1 have a: "map_of ?m ''foo'' = Some (args (?d (Obj [(''x'', Num 1)])))"
    by simp
  from t g1 have b: "\<exists>nm\<in>set (getKeys (Mapping ?m)). \<exists>key.
         name (?d (Obj [(''x'', Num 1)])) = (if key \<noteq> ''default'' then nm @ ''['' @ key @ '']'' else nm)
         \<and> map_of ?m nm = Some (args (?d (Obj [(''x'', Num 1)])))"
    by simp
  from t h l mm g1 have c: "\<exists>es'. [''semantic-lint'' \<mapsto> [?d (Obj [(''x'', Num 1)])]] ''semantic-lint'' = Some es'
      \<and> ?d (Obj [(''x'', Num 1)]) \<in> set es'"
    by (simp add: lintClass_def)
  note u = descriptor_args
    [of _ ?res createExtensionCache "[?d Undefined]" createExtensionCache
        "?d Undefined" ?host "[''semantic-lint'' \<mapsto> [?d Undefined]]"
        "?s Undefined" "''semantic-lint''" "[''foo'']"]
  from u p2 g2 have d: "args (?d Undefined) = Undefined"
    by simp
  from p1 g1 a p2 g2 show ?thesis by simp
qed

section \<open>The classifier: a skipped export loses the aggregate\<close>

lemma nonconstructible_export:
  assumes "truthy v" and "js_get v ''extension-kind'' = Str k"
    and "k = SemanticLint \<or> k = SyntacticLint"
    and "typeof v \<noteq> ''function''"
    and "extensionArgs eo rn = Inr a"
  shows "reduceExport eo rn aggregate v key st =
           (Inr None,
            st\<lparr>diagnostics := diagnostics st @
               [\<lparr>message = Extension_0_exported_member_1_has_extension_kind_2_but_was_type_3_when_type_4_was_expected,
                 messageArgs = [Str rn, Str key, Undefined, Str (typeof v), Str ''function'']\<rparr>]\<rparr>)"
  using assms
  by (auto simp: reduceExport_def createCompilerDiagnostic_def ExtensionKind_def
        SemanticLint_def SyntacticLint_def)

text \<open>
  C1, on the code. The module \<^verbatim>\<open>m\<close> exports two members tagged
  \<^verbatim>\<open>syntactic-lint\<close>, a plain object and a class. With the object enumerated first,
  its diagnostic is recorded, the callback's bare \<^verbatim>\<open>return;\<close> makes the aggregate
  \<^verbatim>\<open>undefined\<close>, and the push of the class's descriptor throws: the pass gives a
  \<^verbatim>\<open>TypeError\<close> and no descriptor. With the class enumerated first, the reduction
  of the module ends in \<^verbatim>\<open>undefined\<close>: the accepted descriptor is lost.
\<close>

theorem two_tagged_members_lose_the_list:
  "getCompilerExtensions (Names [''m''])
       (hostLoading (\<lambda>file. Inr (Obj [(''bad'', taggedObject ''syntactic-lint''),
                                        (''good'', lintClass ''syntactic-lint'')])))
       createExtensionCache =
     (Inl TypeError,
      \<lparr>extensions = None,
       diagnostics =
         [\<lparr>message = Extension_0_exported_member_1_has_extension_kind_2_but_was_type_3_when_type_4_was_expected,
           messageArgs = [Str ''m'', Str ''bad'', Undefined, Str ''object'', Str ''function'']\<rparr>],
       loadCalls = [''/project/node_modules/m/index.js'']\<rparr>)
   \<and> fst (preparedExtensionObject (Names [''m''])
       \<lparr>res_name = ''m'',
        res_result = Obj [(''good'', lintClass ''syntactic-lint''),
                          (''bad'', taggedObject ''syntactic-lint'')],
        res_error = Undefined\<rparr> createExtensionCache) = Inr None"
  by (simp add: getCompilerExtensions_def collectCompilerExtensions_def createExtensionCache_def
        extensionNames_def extensionLoadResult_def hostLoading_def currentDirectory_def
        combinePaths_def preparedExtensionObject_def reduceExport_def lintClass_def
        taggedObject_def array_push_def SemanticLint_def SyntacticLint_def
        createCompilerDiagnostic_def ExtensionKind_def)

text \<open>
  C2, on the code. A \<^verbatim>\<open>null\<close> export adds no diagnostic and no descriptor, but the
  callback returns \<^verbatim>\<open>undefined\<close> for it: a class exported after it is not
  classified, the push of its descriptor throws a \<^verbatim>\<open>TypeError\<close>; and a class
  exported before it is lost with the aggregate.
\<close>

theorem null_export_loses_the_list:
  "getCompilerExtensions (Names [''m''])
       (hostLoading (\<lambda>file. Inr (Obj [(''nothing'', Null),
                                        (''good'', lintClass ''syntactic-lint'')])))
       createExtensionCache =
     (Inl TypeError,
      \<lparr>extensions = None, diagnostics = [],
       loadCalls = [''/project/node_modules/m/index.js'']\<rparr>)
   \<and> fst (preparedExtensionObject (Names [''m''])
       \<lparr>res_name = ''m'',
        res_result = Obj [(''good'', lintClass ''syntactic-lint''), (''nothing'', Null)],
        res_error = Undefined\<rparr> createExtensionCache) = Inr None"
  by (simp add: getCompilerExtensions_def collectCompilerExtensions_def createExtensionCache_def
        extensionNames_def extensionLoadResult_def hostLoading_def currentDirectory_def
        combinePaths_def preparedExtensionObject_def reduceExport_def lintClass_def
        array_push_def SemanticLint_def SyntacticLint_def)

text \<open>
  C4, on the code. The diagnostic for a tagged export that is not a function has the
  module name, the export key, the export's type and \<^verbatim>\<open>function\<close> among its
  arguments; the argument for the declared kind is \<^verbatim>\<open>ExtensionKind[annotatedKind]\<close>,
  a lookup of the kind's value among the names of the namespace's constants, which
  is \<^verbatim>\<open>undefined\<close> for both lint kinds.
\<close>

theorem nonconstructible_diagnostic_kind_undefined:
  "reduceExport (Names [''m'']) ''m'' (Some []) (taggedObject ''syntactic-lint'') ''bad''
       createExtensionCache =
     (Inr None,
      \<lparr>extensions = None,
       diagnostics =
         [\<lparr>message = Extension_0_exported_member_1_has_extension_kind_2_but_was_type_3_when_type_4_was_expected,
           messageArgs = [Str ''m'', Str ''bad'', Undefined, Str ''object'', Str ''function'']\<rparr>],
       loadCalls = []\<rparr>)
   \<and> js_get ExtensionKind ''syntactic-lint'' = Undefined
   \<and> js_get ExtensionKind ''semantic-lint'' = Undefined"
  using nonconstructible_export [of "taggedObject ''syntactic-lint''" "''syntactic-lint''"
      "Names [''m'']" "''m''" Undefined "Some []" "''bad''" createExtensionCache]
  by (simp add: taggedObject_def SyntacticLint_def createExtensionCache_def ExtensionKind_def
        SemanticLint_def)

end
